theory Spec2Isabelle
  imports Complex_Main "HOL-Library.Sublist" "HOL-Library.Log_Nat"
begin

unbundle bit_operations_syntax

section \<open>Working mode to Mode/State tables\<close>

text \<open>
  The working mode is register 201, read unsigned, so the translators receive a Python
  \<^verbatim>\<open>int\<close>: 0 PowerOn, 1 Standby, 2 Mains, 3 Off-Grid, 4 Bypass, 5 Charging, 6 Fault.
  Python's \<^verbatim>\<open>wm in (a, b, c)\<close> is membership in the tuple, written \<open>wm \<in> set [a, b, c]\<close>.
  Three files define a function called \<^verbatim>\<open>vebus_mode_from_wm\<close> and one called
  \<^verbatim>\<open>vebus_state_from_wm\<close>; each keeps its name, prefixed by its file.
\<close>

subsection \<open>venus-sumry-dbus/multiplus.py\<close>

definition multiplus_vebus_mode_from_wm :: "int \<Rightarrow> int" where
  "multiplus_vebus_mode_from_wm wm =
     (if wm = 5 then 1
      else if wm \<in> set [3, 2, 4] then 3
      else 4)"

definition multiplus_vebus_state_from_wm :: "int \<Rightarrow> int" where
  "multiplus_vebus_state_from_wm wm =
     (if wm \<in> set [1, 0] then 1
      else if wm \<in> set [3, 2, 4, 5] then 9
      else if wm = 6 then 1
      else 1)"

subsection \<open>dbus-multiplus-emulator/celmaibun.py\<close>

definition celmaibun_vebus_mode_from_wm :: "int \<Rightarrow> int" where
  "celmaibun_vebus_mode_from_wm wm =
     (if wm = 3 then 3
      else if wm \<in> set [2, 4, 5] then 1
      else 4)"

definition celmaibun_vebus_state_from_wm :: "int \<Rightarrow> int" where
  "celmaibun_vebus_state_from_wm wm =
     (if wm = 5 then 3
      else if wm = 3 then 9
      else if wm \<in> set [2, 4] then 3
      else if wm \<in> set [0, 1] then 1
      else 1)"

subsection \<open>dbus-multiplus-emulator/dbus-multiplus-emulator.py\<close>

definition emulator_vebus_mode_from_wm :: "int \<Rightarrow> int" where
  "emulator_vebus_mode_from_wm wm =
     (if wm = 3 then 3
      else if wm \<in> set [2, 4, 5] then 1
      else 4)"

definition emulator_vebus_state_from_wm :: "int \<Rightarrow> int" where
  "emulator_vebus_state_from_wm wm =
     (if wm = 5 then 3
      else if wm = 3 then 9
      else if wm \<in> set [2, 4] then 3
      else 1)"

subsection \<open>venus-sumry-dbus/inverter.py\<close>

definition venus_mode_from_wm :: "int \<Rightarrow> int" where
  "venus_mode_from_wm wm =
     (if wm \<in> set [3, 2, 4, 5] then 1
      else if wm \<in> set [1, 0, 6] then 4
      else 4)"

definition venus_state_from_wm :: "int \<Rightarrow> int" where
  "venus_state_from_wm wm =
     (if wm \<in> set [1, 0] then 1
      else if wm \<in> set [3, 2, 4, 5] then 9
      else if wm = 6 then 1
      else 1)"

section \<open>Python values, exceptions and files\<close>

text \<open>
  A Python float is modelled as the real number it denotes; infinities and NaN are left
  out. Where the program scales a register value or compares a voltage with a bound, the
  rounding of the operation is left out too: on the values a 16-bit register can hold, the
  comparisons of the guards below (\<^verbatim>\<open>in_v > 5\<close>, \<^verbatim>\<open>in_v > 20\<close>,
  \<^verbatim>\<open>in_v > 150\<close>, \<^verbatim>\<open>if in_v\<close>) give the same answer on floats and on reals.
  The arithmetic on the energy counters is different: there the rounding decides what a
  tick adds, so the three operations it uses are a parameter of the model (see
  \<open>float_arith\<close> below).

  Every exception the modelled code can raise is a value of \<open>error\<close>; a computation that
  may raise returns \<open>error + 'a\<close>, with \<open>Inl\<close> for the exception.
\<close>

datatype error =
    SerialException
  | ModbusException nat
  | ZeroDivisionError
  | FileNotFoundError
  | JSONDecodeError
  | TypeError
  | KeyError
  | OverflowError
  | OSError

text \<open>\<^verbatim>\<open>a / b\<close> on floats raises when the divisor is zero.\<close>

definition py_truediv :: "real \<Rightarrow> real \<Rightarrow> error + real" where
  "py_truediv a b = (if b = 0 then Inl ZeroDivisionError else Inr (a / b))"

text \<open>\<^verbatim>\<open>int(x)\<close> on a float truncates towards zero.\<close>

definition py_int :: "real \<Rightarrow> int" where
  "py_int x = (if 0 \<le> x then \<lfloor>x\<rfloor> else \<lceil>x\<rceil>)"

subsection \<open>Float arithmetic\<close>

text \<open>
  The float operations \<^verbatim>\<open>+\<close>, \<^verbatim>\<open>*\<close> and \<^verbatim>\<open>/\<close>, on the reals that the
  floats denote.
\<close>

record float_arith =
  fl_add :: "real \<Rightarrow> real \<Rightarrow> real"
  fl_mul :: "real \<Rightarrow> real \<Rightarrow> real"
  fl_div :: "real \<Rightarrow> real \<Rightarrow> real"

text \<open>Arithmetic without rounding.\<close>

definition exact_arith :: float_arith where
  "exact_arith = \<lparr>fl_add = (\<lambda>x y. x + y), fl_mul = (\<lambda>x y. x * y), fl_div = (\<lambda>x y. x / y)\<rparr>"

text \<open>
  The arithmetic of the interpreter: IEEE 754 binary64, round to nearest, ties to even.
  A nonzero \<open>x\<close> with \<open>2 ^ k \<le> \<bar>x\<bar> < 2 ^ (k + 1)\<close> is rounded to a multiple of
  \<open>2 ^ (k - 52)\<close>, and to a multiple of \<open>2 ^ - 1074\<close> below the normal range. A result
  of magnitude \<open>2 ^ 1024\<close> or more is an infinity for the interpreter and is not covered.
\<close>

definition round_half_even :: "real \<Rightarrow> int" where
  "round_half_even x =
     (let n = \<lfloor>x\<rfloor>; r = x - real_of_int n
      in if r < 1 / 2 then n
         else if r > 1 / 2 then n + 1
         else if even n then n else n + 1)"

text \<open>
  The \<open>k\<close> with \<open>2 ^ k \<le> \<bar>x\<bar> < 2 ^ (k + 1)\<close>, for a nonzero \<open>x\<close>, from the number
  of bits of an integer: of the integer part of \<open>\<bar>x\<bar>\<close> when there is one, and of the
  least integer above \<open>1 / \<bar>x\<bar>\<close>, less one, otherwise.
\<close>

definition binade :: "real \<Rightarrow> int" where
  "binade x =
     (if 1 \<le> \<bar>x\<bar> then bitlen \<lfloor>\<bar>x\<bar>\<rfloor> - 1
      else - bitlen (\<lceil>1 / \<bar>x\<bar>\<rceil> - 1))"

definition round_double :: "real \<Rightarrow> real" where
  "round_double x =
     (if x = 0 then 0
      else
        (let e = max (binade x - 52) (- 1074)
         in real_of_int (round_half_even (x / 2 powi e)) * 2 powi e))"

definition double_arith :: float_arith where
  "double_arith =
     \<lparr>fl_add = (\<lambda>x y. round_double (x + y)),
      fl_mul = (\<lambda>x y. round_double (x * y)),
      fl_div = (\<lambda>x y. round_double (x / y))\<rparr>"

subsection \<open>JSON documents and the energy file\<close>

text \<open>
  The value \<^verbatim>\<open>json.load\<close> returns. An object is a Python dict, kept as the list of its
  items in insertion order; its keys are distinct.
\<close>

datatype json =
    JNull
  | JBool bool
  | JInt int
  | JFloat real
  | JStr string
  | JArr "json list"
  | JObj "(string \<times> json) list"

text \<open>
  The file at \<^verbatim>\<open>ENERGY_FILE\<close>. The text of a JSON document is not modelled: a file
  that \<^verbatim>\<open>json.dump\<close> wrote completely holds the document, and \<^verbatim>\<open>json.load\<close>
  gives that document back (both are Python's library). A file that does not exist or cannot
  be opened, and one whose text is not JSON, are the other two cases.
\<close>

datatype file_content = NoFile | Garbage | Document json

definition json_load :: "file_content \<Rightarrow> error + json" where
  "json_load f =
     (case f of
        NoFile \<Rightarrow> Inl FileNotFoundError
      | Garbage \<Rightarrow> Inl JSONDecodeError
      | Document d \<Rightarrow> Inr d)"

text \<open>
  \<^verbatim>\<open>k in data\<close> for a string \<open>k\<close>: key membership on a dict, element membership on a
  list, substring test on a string, \<^verbatim>\<open>TypeError\<close> on anything else.
\<close>

definition py_contains :: "string \<Rightarrow> json \<Rightarrow> error + bool" where
  "py_contains k data =
     (case data of
        JObj kvs \<Rightarrow> Inr (k \<in> set (map fst kvs))
      | JArr xs \<Rightarrow> Inr (JStr k \<in> set xs)
      | JStr s \<Rightarrow> Inr (sublist k s)
      | _ \<Rightarrow> Inl TypeError)"

text \<open>\<^verbatim>\<open>data[k]\<close> for a string \<open>k\<close>: only a dict can be indexed by a string.\<close>

definition py_getitem :: "json \<Rightarrow> string \<Rightarrow> error + json" where
  "py_getitem data k =
     (case data of
        JObj kvs \<Rightarrow> (case map_of kvs k of None \<Rightarrow> Inl KeyError | Some v \<Rightarrow> Inr v)
      | _ \<Rightarrow> Inl TypeError)"

text \<open>
  \<^verbatim>\<open>isinstance(v, (int, float))\<close>: \<^verbatim>\<open>bool\<close> is a subclass of \<^verbatim>\<open>int\<close>, so
  \<^verbatim>\<open>true\<close> and \<^verbatim>\<open>false\<close> pass.
\<close>

definition is_int_or_float :: "json \<Rightarrow> bool" where
  "is_int_or_float v =
     (case v of JBool _ \<Rightarrow> True | JInt _ \<Rightarrow> True | JFloat _ \<Rightarrow> True | _ \<Rightarrow> False)"

text \<open>
  \<^verbatim>\<open>float(v)\<close> on a value that passed the test above. An integer too large for a
  double raises \<^verbatim>\<open>OverflowError\<close>; the rounding of the others is not modelled.
\<close>

definition py_float :: "json \<Rightarrow> error + real" where
  "py_float v =
     (case v of
        JBool b \<Rightarrow> Inr (if b then 1 else 0)
      | JInt n \<Rightarrow>
          (if \<bar>n\<bar> < 2 ^ 1024 - 2 ^ 970 then Inr (real_of_int n) else Inl OverflowError)
      | JFloat x \<Rightarrow> Inr x
      | _ \<Rightarrow> Inl TypeError)"

section \<open>Energy counters and their persistence (dbus-multiplus-emulator.py)\<close>

text \<open>
  The module-level dict \<^verbatim>\<open>_energy\<close> has three fixed keys; it is a record with one
  field per key, and \<open>energy_keys\<close> is the order in which \<^verbatim>\<open>for k in _energy\<close>
  visits them.
\<close>

record counters =
  AcIn1ToInverter_kWh :: real
  AcIn1ToAcOut_kWh :: real
  InverterToAcOut_kWh :: real

definition energy_keys :: "string list" where
  "energy_keys = [''AcIn1ToInverter_kWh'', ''AcIn1ToAcOut_kWh'', ''InverterToAcOut_kWh'']"

definition energy_set :: "string \<Rightarrow> real \<Rightarrow> counters \<Rightarrow> counters" where
  "energy_set k x e =
     (if k = ''AcIn1ToInverter_kWh'' then e\<lparr>AcIn1ToInverter_kWh := x\<rparr>
      else if k = ''AcIn1ToAcOut_kWh'' then e\<lparr>AcIn1ToAcOut_kWh := x\<rparr>
      else if k = ''InverterToAcOut_kWh'' then e\<lparr>InverterToAcOut_kWh := x\<rparr>
      else e)"

definition energy_json :: "counters \<Rightarrow> json" where
  "energy_json e =
     JObj [(''AcIn1ToInverter_kWh'', JFloat (AcIn1ToInverter_kWh e)),
           (''AcIn1ToAcOut_kWh'', JFloat (AcIn1ToAcOut_kWh e)),
           (''InverterToAcOut_kWh'', JFloat (InverterToAcOut_kWh e))]"

definition initial_energy :: counters where
  "initial_energy =
     \<lparr>AcIn1ToInverter_kWh = 0, AcIn1ToAcOut_kWh = 0, InverterToAcOut_kWh = 0\<rparr>"

definition ENERGY_SAVE_SEC :: real where
  "ENERGY_SAVE_SEC = 60"

text \<open>
  The module's globals, and the file they are persisted in. \<^verbatim>\<open>_energy\<close> and
  \<^verbatim>\<open>_last_energy_save\<close> lose their leading underscore.
\<close>

record globals =
  energy :: counters
  last_energy_save :: real
  energy_file :: file_content

definition initial_globals :: "file_content \<Rightarrow> globals" where
  "initial_globals f = \<lparr>energy = initial_energy, last_energy_save = 0, energy_file = f\<rparr>"

text \<open>
  One round of the loop of \<^verbatim>\<open>_load_energy\<close>:
  \<^verbatim>\<open>if k in data and isinstance(data[k], (int, float)): _energy[k] = float(data[k])\<close>.
\<close>

definition load_key :: "json \<Rightarrow> string \<Rightarrow> counters \<Rightarrow> error + counters" where
  "load_key data k e =
     (case py_contains k data of
        Inl err \<Rightarrow> Inl err
      | Inr False \<Rightarrow> Inr e
      | Inr True \<Rightarrow>
          (case py_getitem data k of
             Inl err \<Rightarrow> Inl err
           | Inr v \<Rightarrow>
               if is_int_or_float v
               then (case py_float v of
                       Inl err \<Rightarrow> Inl err
                     | Inr x \<Rightarrow> Inr (energy_set k x e))
               else Inr e))"

text \<open>
  The loop over the keys. The dict is updated in place, so when a round raises, what the
  earlier rounds stored stays; the exception is returned beside the counters.
\<close>

fun load_keys :: "json \<Rightarrow> string list \<Rightarrow> counters \<Rightarrow> counters \<times> error option" where
  "load_keys data [] e = (e, None)"
| "load_keys data (k # ks) e =
     (case load_key data k e of
        Inl err \<Rightarrow> (e, Some err)
      | Inr e' \<Rightarrow> load_keys data ks e')"

text \<open>The body of the \<^verbatim>\<open>try\<close> of \<^verbatim>\<open>_load_energy\<close>.\<close>

definition load_energy_try :: "globals \<Rightarrow> globals \<times> error option" where
  "load_energy_try g =
     (case json_load (energy_file g) of
        Inl err \<Rightarrow> (g, Some err)
      | Inr data \<Rightarrow>
          (case load_keys data energy_keys (energy g) of
             (e, r) \<Rightarrow> (g\<lparr>energy := e\<rparr>, r)))"

text \<open>
  \<^verbatim>\<open>_load_energy\<close>: \<^verbatim>\<open>except Exception\<close> logs and returns, so the caller sees no
  exception, only the globals.
\<close>

definition load_energy :: "globals \<Rightarrow> globals" where
  "load_energy g = fst (load_energy_try g)"

text \<open>
  What the file system does to a write: it completes, or it raises and leaves the file in
  some state (absent, or truncated).
\<close>

datatype write_result = Written | WriteFailed error file_content

datatype save_outcome = Throttled | Saved | SaveFailed error

text \<open>
  \<^verbatim>\<open>_save_energy\<close>, with the value of \<^verbatim>\<open>time()\<close> and the behaviour of the file
  system as inputs. The outcome tells the three paths apart: the early return, the write
  (logged at debug level) and the caught exception (logged as an error).
\<close>

definition save_energy :: "real \<Rightarrow> write_result \<Rightarrow> globals \<Rightarrow> save_outcome \<times> globals" where
  "save_energy now w g =
     (if now - last_energy_save g < ENERGY_SAVE_SEC then (Throttled, g)
      else
        (case w of
           Written \<Rightarrow>
             (Saved, g\<lparr>energy_file := Document (energy_json (energy g)),
                       last_energy_save := now\<rparr>)
         | WriteFailed err f \<Rightarrow> (SaveFailed err, g\<lparr>energy_file := f\<rparr>)))"

section \<open>Reading registers\<close>

text \<open>
  What the serial link does during one poll: whether \<^verbatim>\<open>mk_instrument()\<close> gets its
  instrument, what each \<^verbatim>\<open>read_register\<close> returns and what each
  \<^verbatim>\<open>read_registers\<close> returns (\<open>None\<close> when the call raises: timeout, CRC error,
  port busy). A register read returns the integer minimalmodbus decoded, signed or unsigned
  as the call asked. Within one poll every address is read once.
\<close>

record modbus =
  port_ok :: bool
  reg :: "nat \<Rightarrow> int option"
  reg_block :: "nat \<Rightarrow> nat \<Rightarrow> int list option"

definition mk_instrument :: "modbus \<Rightarrow> error + unit" where
  "mk_instrument b = (if port_ok b then Inr () else Inl SerialException)"

definition r16 :: "modbus \<Rightarrow> nat \<Rightarrow> error + int" where
  "r16 b a = (case reg b a of None \<Rightarrow> Inl (ModbusException a) | Some v \<Rightarrow> Inr v)"

definition read_registers :: "modbus \<Rightarrow> nat \<Rightarrow> nat \<Rightarrow> error + int list" where
  "read_registers b a n =
     (case reg_block b a n of None \<Rightarrow> Inl (ModbusException a) | Some ws \<Rightarrow> Inr ws)"

text \<open>One statement after another: the first exception ends the block.\<close>

definition and_then :: "error + 'a \<Rightarrow> ('a \<Rightarrow> error + 'b) \<Rightarrow> error + 'b" where
  "and_then r f = (case r of Inl e \<Rightarrow> Inl e | Inr x \<Rightarrow> f x)"

text \<open>\<^verbatim>\<open>r32\<close>: two unsigned reads, \<^verbatim>\<open>(hi<<16)|lo\<close> on Python's unbounded integers.\<close>

definition r32 :: "modbus \<Rightarrow> nat \<Rightarrow> error + int" where
  "r32 b a =
     and_then (r16 b a) (\<lambda>hi.
     and_then (r16 b (a + 1)) (\<lambda>lo.
       Inr (push_bit 16 hi OR lo)))"

text \<open>
  \<^verbatim>\<open>read_ascii\<close>: the words are split into bytes, high byte first, the trailing NUL
  bytes are stripped and the rest is decoded. \<^verbatim>\<open>bytes.decode(errors="ignore")\<close> is
  Python's codec and is a parameter here.
\<close>

definition word_bytes :: "int list \<Rightarrow> int list" where
  "word_bytes ws = concat (map (\<lambda>w. [drop_bit 8 w AND 255, w AND 255]) ws)"

definition rstrip_nul :: "int list \<Rightarrow> int list" where
  "rstrip_nul bs = rev (dropWhile (\<lambda>x. x = 0) (rev bs))"

definition read_ascii :: "(int list \<Rightarrow> string) \<Rightarrow> modbus \<Rightarrow> nat \<Rightarrow> nat \<Rightarrow> error + string" where
  "read_ascii decode b a n =
     and_then
       (if n > 6
        then and_then (read_registers b a 6) (\<lambda>w1.
             and_then (read_registers b (a + 6) (n - 6)) (\<lambda>w2. Inr (w1 @ w2)))
        else read_registers b a n)
       (\<lambda>ws. Inr (decode (rstrip_nul (word_bytes ws))))"

text \<open>
  What one tick of dbus-multiplus-emulator.py receives from outside the program: the
  serial link, the two values of \<^verbatim>\<open>time()\<close> it reads, and what the file system does
  if the tick writes the energy file.
\<close>

record tick_in =
  bus :: modbus
  now_save :: real
  write_res :: write_result
  now_uptime :: real

section \<open>The derived AC-input current\<close>

text \<open>
  multiplus.py, \<^verbatim>\<open>collect_snapshot\<close>:
  \<^verbatim>\<open>in_i = (in_p / in_v) if in_v else 0.0\<close>, with \<open>in_p\<close> the register value and
  \<open>in_v\<close> the register value times 0.1.
\<close>

definition multiplus_in_i :: "int \<Rightarrow> real \<Rightarrow> error + real" where
  "multiplus_in_i in_p in_v =
     (if in_v \<noteq> 0 then py_truediv (real_of_int in_p) in_v else Inr 0)"

text \<open>
  celmaibun.py, \<^verbatim>\<open>update\<close>: \<^verbatim>\<open>in_p = abs(in_p_raw)\<close>, then
  \<^verbatim>\<open>in_i = (in_p / in_v) if in_v > 20 else 0.0\<close>.
\<close>

definition celmaibun_in_i :: "int \<Rightarrow> real \<Rightarrow> error + real" where
  "celmaibun_in_i in_p_raw in_v =
     (let in_p = \<bar>in_p_raw\<bar>
      in if in_v > 20 then py_truediv (real_of_int in_p) in_v else Inr 0)"

text \<open>
  dbus-multiplus-emulator.py, \<^verbatim>\<open>update\<close>:
  \<^verbatim>\<open>in_i = (in_p / in_v) if in_v > 5 else 0.0\<close>.
\<close>

definition emulator_in_i :: "int \<Rightarrow> real \<Rightarrow> error + real" where
  "emulator_in_i in_p in_v =
     (if in_v > 5 then py_truediv (real_of_int in_p) in_v else Inr 0)"

section \<open>The poll tick of dbus-multiplus-emulator.py\<close>

text \<open>The values a D-Bus path can hold.\<close>

datatype dval = DNone | DInt int | DFloat real | DStr string

text \<open>
  \<^verbatim>\<open>MultiPlusEmuService\<close>: the published paths (\<^verbatim>\<open>self.svc\<close>) and
  \<^verbatim>\<open>self._idx\<close>.
\<close>

record service =
  svc :: "string \<rightharpoonup> dval"
  idx :: int

text \<open>The two module constants the tick reads; both are fixed when the process starts.\<close>

record config =
  POLL_SEC :: real
  time_driver_started :: int

text \<open>The local variables of \<^verbatim>\<open>update\<close> once the \<^verbatim>\<open>try\<close> block is through.\<close>

record sample =
  wm :: int
  in_v :: real
  in_f :: real
  in_p :: int
  in_i :: real
  out_v :: real
  out_i :: real
  out_f :: real
  out_p :: int
  out_s :: int
  dc_v :: real
  dc_i :: real
  dc_p :: int
  soc :: "int option"

text \<open>
  The \<^verbatim>\<open>try\<close> block of \<^verbatim>\<open>update\<close>. Every read but the one of the state of
  charge (register 229, which has a \<^verbatim>\<open>try\<close> of its own) ends the block when it raises.
\<close>

definition emu_acquire :: "tick_in \<Rightarrow> error + sample" where
  "emu_acquire ti =
     and_then (mk_instrument (bus ti)) (\<lambda>inv.
     and_then (r16 (bus ti) 201) (\<lambda>wm'.
     and_then (r16 (bus ti) 202) (\<lambda>r202.
     and_then (r16 (bus ti) 203) (\<lambda>r203.
     and_then (r16 (bus ti) 204) (\<lambda>in_p'.
     and_then (emulator_in_i in_p' (real_of_int r202 * 0.1)) (\<lambda>in_i'.
     and_then (r16 (bus ti) 210) (\<lambda>r210.
     and_then (r16 (bus ti) 211) (\<lambda>r211.
     and_then (r16 (bus ti) 212) (\<lambda>r212.
     and_then (r16 (bus ti) 213) (\<lambda>out_p'.
     and_then (r16 (bus ti) 214) (\<lambda>out_s'.
     and_then (r16 (bus ti) 215) (\<lambda>r215.
     and_then (r16 (bus ti) 216) (\<lambda>r216.
     and_then (r16 (bus ti) 217) (\<lambda>dc_p'.
       Inr \<lparr>wm = wm',
            in_v = real_of_int r202 * 0.1,
            in_f = real_of_int r203 * 0.01,
            in_p = in_p',
            in_i = in_i',
            out_v = real_of_int r210 * 0.1,
            out_i = real_of_int r211 * 0.1,
            out_f = real_of_int r212 * 0.01,
            out_p = out_p',
            out_s = out_s',
            dc_v = real_of_int r215 * 0.1,
            dc_i = real_of_int r216 * 0.1,
            dc_p = dc_p',
            soc = (case r16 (bus ti) 229 of Inl e \<Rightarrow> None | Inr v \<Rightarrow> Some v)\<rparr>))))))))))))))"

text \<open>The registers whose read must succeed for the \<^verbatim>\<open>try\<close> block to get through.\<close>

definition emu_mandatory :: "nat list" where
  "emu_mandatory = [201, 202, 203, 204, 210, 211, 212, 213, 214, 215, 216, 217]"

text \<open>\<^verbatim>\<open>s[path] = value\<close>, for a list of assignments in program order.\<close>

definition set_items :: "(string \<rightharpoonup> dval) \<Rightarrow> (string \<times> dval) list \<Rightarrow> (string \<rightharpoonup> dval)" where
  "set_items m kvs = foldl (\<lambda>m' kv. m'(fst kv \<mapsto> snd kv)) m kvs"

definition mains_present :: "sample \<Rightarrow> bool" where
  "mains_present smp \<longleftrightarrow> wm smp \<in> set [2, 4, 5] \<or> in_v smp > 150"

text \<open>
  The energy accumulation of \<^verbatim>\<open>update\<close>, with \<open>dt = POLL_SEC\<close>:
  \<^verbatim>\<open>delta = (p / 1000.0) * (dt / 3600.0)\<close> and \<^verbatim>\<open>_energy[k] += delta\<close>, in the
  float arithmetic \<open>ar\<close>. The conversion of the integer \<open>p\<close> to a float is exact.
\<close>

definition accumulate_with :: "float_arith \<Rightarrow> real \<Rightarrow> sample \<Rightarrow> counters \<Rightarrow> counters" where
  "accumulate_with ar dt smp e =
     (let e1 =
        (if mains_present smp \<and> in_p smp > 0
         then
           (let delta_kwh_in =
                  fl_mul ar (fl_div ar (real_of_int (in_p smp)) 1000) (fl_div ar dt 3600)
            in e\<lparr>AcIn1ToInverter_kWh := fl_add ar (AcIn1ToInverter_kWh e) delta_kwh_in,
                 AcIn1ToAcOut_kWh := fl_add ar (AcIn1ToAcOut_kWh e) delta_kwh_in\<rparr>)
         else e)
      in
        (if out_p smp > 0
         then
           (let delta_kwh_out =
                  fl_mul ar (fl_div ar (real_of_int (out_p smp)) 1000) (fl_div ar dt 3600)
            in e1\<lparr>InverterToAcOut_kWh := fl_add ar (InverterToAcOut_kWh e1) delta_kwh_out\<rparr>)
         else e1))"

text \<open>The accumulation in exact arithmetic.\<close>

definition accumulate :: "real \<Rightarrow> sample \<Rightarrow> counters \<Rightarrow> counters" where
  "accumulate dt smp e = accumulate_with exact_arith dt smp e"

text \<open>The assignments of \<^verbatim>\<open>update\<close> from \<^verbatim>\<open>/Connected\<close> down to the battery values.\<close>

definition telemetry_items :: "sample \<Rightarrow> (string \<times> dval) list" where
  "telemetry_items smp =
     [(''/Connected'', DInt 1),
      (''/Mode'', DInt (emulator_vebus_mode_from_wm (wm smp))),
      (''/State'', DInt (emulator_vebus_state_from_wm (wm smp))),
      (''/VebusError'', DInt 0),
      (''/VebusChargeState'', DInt (if wm smp = 5 then 3 else 1)),
      (''/Ac/ActiveIn/Connected'', DInt (if mains_present smp then 1 else 0)),
      (''/Ac/ActiveIn/ActiveInput'', DInt (if mains_present smp then 0 else 240)),
      (''/Ac/ActiveIn/Available'', DInt 1),
      (''/Ac/ActiveIn/Source'', DInt (if mains_present smp then 1 else 0)),
      (''/Ac/ActiveIn/L1/V'', DFloat (in_v smp)),
      (''/Ac/ActiveIn/L1/I'', DFloat (in_i smp)),
      (''/Ac/ActiveIn/L1/F'', DFloat (in_f smp)),
      (''/Ac/ActiveIn/L1/P'', DInt (in_p smp)),
      (''/Ac/ActiveIn/L1/S'', DInt \<bar>in_p smp\<bar>),
      (''/Ac/ActiveIn/V'', DFloat (in_v smp)),
      (''/Ac/ActiveIn/Current'', DFloat (in_i smp)),
      (''/Ac/ActiveIn/Power'', DInt (in_p smp)),
      (''/Ac/ActiveIn/Frequency'', DFloat (in_f smp)),
      (''/Ac/ActiveIn/P'', DInt (in_p smp)),
      (''/Ac/ActiveIn/S'', DInt \<bar>in_p smp\<bar>),
      (''/Ac/Out/L1/V'', DFloat (out_v smp)),
      (''/Ac/Out/L1/I'', DFloat (out_i smp)),
      (''/Ac/Out/L1/F'', DFloat (out_f smp)),
      (''/Ac/Out/L1/P'', DInt (out_p smp)),
      (''/Ac/Out/L1/S'', DInt (out_s smp)),
      (''/Ac/Out/P'', DInt (out_p smp)),
      (''/Ac/Out/S'', DInt (out_s smp)),
      (''/Dc/0/Voltage'', DFloat (dc_v smp)),
      (''/Dc/0/Current'', DFloat (dc_i smp)),
      (''/Dc/0/Power'', DInt (dc_p smp))]
     @ (case soc smp of None \<Rightarrow> [] | Some v \<Rightarrow> [(''/Soc'', DInt v)])"

definition energy_items :: "counters \<Rightarrow> (string \<times> dval) list" where
  "energy_items e =
     [(''/Energy/AcIn1ToInverter'', DFloat (AcIn1ToInverter_kWh e)),
      (''/Energy/AcIn1ToAcOut'', DFloat (AcIn1ToAcOut_kWh e)),
      (''/Energy/InverterToAcOut'', DFloat (InverterToAcOut_kWh e)),
      (''/Energy/OutToInverter'', DFloat 0)]"

text \<open>
  \<^verbatim>\<open>MultiPlusEmuService.update\<close>, in the float arithmetic \<open>ar\<close>. The state is the
  service object and the module's globals; the result is the value returned to GLib
  (\<open>True\<close>: call again after the interval) and the new state.
\<close>

definition emu_update_with ::
  "float_arith \<Rightarrow> config \<Rightarrow> tick_in \<Rightarrow> service \<times> globals \<Rightarrow> bool \<times> service \<times> globals" where
  "emu_update_with ar cfg ti st =
     (case st of (s, g) \<Rightarrow>
        (case emu_acquire ti of
           Inl e \<Rightarrow> (True, s\<lparr>svc := (svc s)(''/Connected'' \<mapsto> DInt 0)\<rparr>, g)
         | Inr smp \<Rightarrow>
             (let m1 = set_items (svc s) (telemetry_items smp);
                  e' = accumulate_with ar (POLL_SEC cfg) smp (energy g);
                  m2 = set_items m1 (energy_items e');
                  g' = snd (save_energy (now_save ti) (write_res ti) (g\<lparr>energy := e'\<rparr>));
                  idx' = (idx s + 1) mod 256;
                  m3 = set_items m2
                         [(''/Devices/0/UpTime'',
                             DInt (py_int (now_uptime ti) - time_driver_started cfg)),
                          (''/UpdateIndex'', DInt idx')]
              in (True, s\<lparr>svc := m3, idx := idx'\<rparr>, g'))))"

text \<open>The tick in exact arithmetic.\<close>

definition emu_update ::
  "config \<Rightarrow> tick_in \<Rightarrow> service \<times> globals \<Rightarrow> bool \<times> service \<times> globals" where
  "emu_update cfg ti st = emu_update_with exact_arith cfg ti st"

text \<open>
  The timer calls \<^verbatim>\<open>update\<close> once per tick for as long as it returns \<open>True\<close>; a
  run is the list of what the ticks received.
\<close>

fun emu_run :: "config \<Rightarrow> tick_in list \<Rightarrow> service \<times> globals \<Rightarrow> service \<times> globals" where
  "emu_run cfg [] st = st"
| "emu_run cfg (ti # tis) st =
     (case emu_update cfg ti st of
        (again, st') \<Rightarrow> if again then emu_run cfg tis st' else st')"

section \<open>The poll tick of inverter.py\<close>

text \<open>
  The dict \<^verbatim>\<open>collect_snapshot\<close> returns has a fixed set of keys, all written by the
  one \<^verbatim>\<open>return\<close>; it is a record with one field per key. \<^verbatim>\<open>nz(v)\<close> and
  \<^verbatim>\<open>v*1.0\<close> leave the values they are given here as they are.
\<close>

record inv_snapshot =
  ModeNum :: int
  StateNum :: int
  Serial :: string
  Out_V :: real
  Out_I :: real
  Out_F :: real
  Out_P :: int
  Out_S :: int
  Dc_V :: real
  Dc_I :: real
  Dc_P :: int
  Inv_V :: real
  Inv_I :: real
  Inv_F :: real
  Inv_P :: int
  T_Dcdc :: int
  T_Inv :: int
  Fault :: int
  Warn :: int

definition inverter_collect_snapshot :: "(int list \<Rightarrow> string) \<Rightarrow> modbus \<Rightarrow> error + inv_snapshot" where
  "inverter_collect_snapshot decode b =
     and_then (mk_instrument b) (\<lambda>inv.
     and_then (r16 b 201) (\<lambda>wm'.
     and_then (r16 b 210) (\<lambda>r210.
     and_then (r16 b 211) (\<lambda>r211.
     and_then (r16 b 212) (\<lambda>r212.
     and_then (r16 b 213) (\<lambda>out_p'.
     and_then (r16 b 214) (\<lambda>out_s'.
     and_then (r16 b 215) (\<lambda>r215.
     and_then (r16 b 216) (\<lambda>r216.
     and_then (r16 b 217) (\<lambda>dc_p'.
     and_then (r16 b 205) (\<lambda>r205.
     and_then (r16 b 206) (\<lambda>r206.
     and_then (r16 b 207) (\<lambda>r207.
     and_then (r16 b 208) (\<lambda>inv_p'.
     and_then (r16 b 226) (\<lambda>t_dcdc.
     and_then (r16 b 227) (\<lambda>t_inv.
     and_then (read_ascii decode b 186 12) (\<lambda>serial.
     and_then (r32 b 100) (\<lambda>fault.
     and_then (r32 b 108) (\<lambda>warn.
       Inr \<lparr>ModeNum = venus_mode_from_wm wm',
            StateNum = venus_state_from_wm wm',
            Serial = serial,
            Out_V = real_of_int r210 * 0.1,
            Out_I = real_of_int r211 * 0.1,
            Out_F = real_of_int r212 * 0.01,
            Out_P = out_p',
            Out_S = out_s',
            Dc_V = real_of_int r215 * 0.1,
            Dc_I = real_of_int r216 * 0.1,
            Dc_P = dc_p',
            Inv_V = real_of_int r205 * 0.1,
            Inv_I = real_of_int r206 * 0.1,
            Inv_F = real_of_int r207 * 0.01,
            Inv_P = inv_p',
            T_Dcdc = t_dcdc,
            T_Inv = t_inv,
            Fault = fault,
            Warn = warn\<rparr>)))))))))))))))))))"

text \<open>\<^verbatim>\<open>_bump\<close>, the same in every service class of the repository.\<close>

definition bump :: "service \<Rightarrow> service" where
  "bump s =
     (let idx' = (idx s + 1) mod 256
      in s\<lparr>idx := idx', svc := (svc s)(''/UpdateIndex'' \<mapsto> DInt idx')\<rparr>)"

text \<open>\<^verbatim>\<open>InverterService.publish\<close>.\<close>

definition inverter_publish :: "inv_snapshot \<Rightarrow> service \<Rightarrow> service" where
  "inverter_publish snap s =
     bump (s\<lparr>svc := set_items (svc s)
       [(''/Connected'', DInt 1),
        (''/Serial'', DStr (Serial snap)),
        (''/Ac/Out/L1/V'', DFloat (Out_V snap)),
        (''/Ac/Out/L1/I'', DFloat (Out_I snap)),
        (''/Ac/Out/L1/F'', DFloat (Out_F snap)),
        (''/Ac/Out/L1/P'', DInt (Out_P snap)),
        (''/Ac/Out/L1/S'', DInt (Out_S snap)),
        (''/Dc/0/Voltage'', DFloat (Dc_V snap)),
        (''/Dc/0/Current'', DFloat (Dc_I snap)),
        (''/Dc/0/Power'', DInt (Dc_P snap)),
        (''/Inverter/Internal/V'', DFloat (Inv_V snap)),
        (''/Inverter/Internal/I'', DFloat (Inv_I snap)),
        (''/Inverter/Internal/F'', DFloat (Inv_F snap)),
        (''/Inverter/Internal/P'', DInt (Inv_P snap)),
        (''/Temperature/Dcdc'', DInt (T_Dcdc snap)),
        (''/Temperature/Inverter'', DInt (T_Inv snap)),
        (''/Status/FaultCode'', DInt (Fault snap)),
        (''/Status/WarningCode'', DInt (Warn snap)),
        (''/Mode'', DInt (ModeNum snap)),
        (''/State'', DInt (StateNum snap))]\<rparr>)"

text \<open>
  \<^verbatim>\<open>tick\<close> of \<^verbatim>\<open>main\<close>: the value returned to GLib and the new service object.
\<close>

definition inverter_tick :: "(int list \<Rightarrow> string) \<Rightarrow> modbus \<Rightarrow> service \<Rightarrow> bool \<times> service" where
  "inverter_tick decode b s =
     (case inverter_collect_snapshot decode b of
        Inl e \<Rightarrow> (True, s\<lparr>svc := (svc s)(''/Connected'' \<mapsto> DInt 0)\<rparr>)
      | Inr snap \<Rightarrow> (True, inverter_publish snap s))"

fun inverter_run :: "(int list \<Rightarrow> string) \<Rightarrow> modbus list \<Rightarrow> service \<Rightarrow> service" where
  "inverter_run decode [] s = s"
| "inverter_run decode (b # bs) s =
     (case inverter_tick decode b s of
        (again, s') \<Rightarrow> if again then inverter_run decode bs s' else s')"

text \<open>The single reads and the block reads \<^verbatim>\<open>collect_snapshot\<close> of inverter.py needs.\<close>

definition inverter_mandatory :: "nat list" where
  "inverter_mandatory =
     [201, 210, 211, 212, 213, 214, 215, 216, 217, 205, 206, 207, 208, 226, 227,
      100, 101, 108, 109]"

definition serial_blocks :: "(nat \<times> nat) list" where
  "serial_blocks = [(186, 6), (192, 6)]"

section \<open>The poll loop of service.py\<close>

text \<open>\<^verbatim>\<open>str(n)\<close> for the register value that \<^verbatim>\<open>MODE_MAP\<close> does not know.\<close>

fun str_nat :: "nat \<Rightarrow> string" where
  "str_nat n =
     (if n < 10 then [char_of (48 + n)]
      else str_nat (n div 10) @ [char_of (48 + n mod 10)])"

definition str_int :: "int \<Rightarrow> string" where
  "str_int i = (if i < 0 then CHR ''-'' # str_nat (nat (- i)) else str_nat (nat i))"

definition MODE_MAP :: "int \<rightharpoonup> string" where
  "MODE_MAP =
     map_of [(0, ''PowerOn''), (1, ''Standby''), (2, ''Mains''), (3, ''OffGrid''),
             (4, ''Bypass''), (5, ''Charging''), (6, ''Fault'')]"

record pub_snapshot =
  Mode :: string
  Fault :: int
  Warn :: int
  Serial :: string
  Grid_V :: real
  Grid_F :: real
  Grid_P :: int
  Inverter_V :: real
  Inverter_A :: real
  Inverter_F :: real
  Inverter_P :: int
  Inverter_Pch :: int
  Output_V :: real
  Output_A :: real
  Output_F :: real
  Output_P :: int
  Output_S :: int
  Batt_V :: real
  Batt_A :: real
  Batt_P :: int
  SoC :: int
  Pv_V :: real
  Pv_A :: real
  Pv_P :: int
  Pv_Pch :: int
  T_Dcdc :: int
  T_Inv :: int

definition service_collect_snapshot :: "(int list \<Rightarrow> string) \<Rightarrow> modbus \<Rightarrow> error + pub_snapshot" where
  "service_collect_snapshot decode b =
     and_then (mk_instrument b) (\<lambda>inv.
     and_then (r16 b 201) (\<lambda>wm'.
     and_then (r16 b 202) (\<lambda>r202.
     and_then (r16 b 203) (\<lambda>r203.
     and_then (r16 b 204) (\<lambda>mains_w.
     and_then (r16 b 205) (\<lambda>r205.
     and_then (r16 b 206) (\<lambda>r206.
     and_then (r16 b 207) (\<lambda>r207.
     and_then (r16 b 208) (\<lambda>inv_w.
     and_then (r16 b 209) (\<lambda>inv_chg_w.
     and_then (r16 b 210) (\<lambda>r210.
     and_then (r16 b 211) (\<lambda>r211.
     and_then (r16 b 212) (\<lambda>r212.
     and_then (r16 b 213) (\<lambda>out_w.
     and_then (r16 b 214) (\<lambda>out_va.
     and_then (r16 b 215) (\<lambda>r215.
     and_then (r16 b 216) (\<lambda>r216.
     and_then (r16 b 217) (\<lambda>batt_w.
     and_then (r16 b 229) (\<lambda>soc'.
     and_then (r16 b 219) (\<lambda>r219.
     and_then (r16 b 220) (\<lambda>r220.
     and_then (r16 b 223) (\<lambda>pv_w.
     and_then (r16 b 224) (\<lambda>pv_chg_w.
     and_then (r16 b 226) (\<lambda>dcdc_t.
     and_then (r16 b 227) (\<lambda>inv_t.
     and_then (r32 b 100) (\<lambda>fault.
     and_then (r32 b 108) (\<lambda>warn.
     and_then (read_ascii decode b 186 12) (\<lambda>serial_no.
       Inr \<lparr>Mode = (case MODE_MAP wm' of Some m \<Rightarrow> m | None \<Rightarrow> str_int wm'),
            Fault = fault,
            Warn = warn,
            Serial = serial_no,
            Grid_V = real_of_int r202 * 0.1,
            Grid_F = real_of_int r203 * 0.01,
            Grid_P = mains_w,
            Inverter_V = real_of_int r205 * 0.1,
            Inverter_A = real_of_int r206 * 0.1,
            Inverter_F = real_of_int r207 * 0.01,
            Inverter_P = inv_w,
            Inverter_Pch = inv_chg_w,
            Output_V = real_of_int r210 * 0.1,
            Output_A = real_of_int r211 * 0.1,
            Output_F = real_of_int r212 * 0.01,
            Output_P = out_w,
            Output_S = out_va,
            Batt_V = real_of_int r215 * 0.1,
            Batt_A = real_of_int r216 * 0.1,
            Batt_P = batt_w,
            SoC = soc',
            Pv_V = real_of_int r219 * 0.1,
            Pv_A = real_of_int r220 * 0.1,
            Pv_P = pv_w,
            Pv_Pch = pv_chg_w,
            T_Dcdc = dcdc_t,
            T_Inv = inv_t\<rparr>))))))))))))))))))))))))))))"

text \<open>
  \<^verbatim>\<open>PvInverterDbusService.publish\<close> and \<^verbatim>\<open>BatteryDbusService.publish\<close>. Both
  classes keep their paths in \<^verbatim>\<open>_service\<close> and their counter in
  \<^verbatim>\<open>_update_index\<close>, the \<open>svc\<close> and \<open>idx\<close> of the record.
\<close>

definition pv_publish :: "pub_snapshot \<Rightarrow> service \<Rightarrow> service" where
  "pv_publish snap s =
     (let pv_p = (if Pv_Pch snap \<noteq> 0 then Pv_Pch snap else Pv_P snap)
      in bump (s\<lparr>svc := set_items (svc s)
           [(''/Connected'', DInt 1),
            (''/Serial'', DStr (Serial snap)),
            (''/Ac/Power'', DInt pv_p),
            (''/Ac/L1/Power'', DInt pv_p),
            (''/Ac/L1/Voltage'', DFloat (Pv_V snap)),
            (''/Ac/L1/Current'', DFloat (Pv_A snap)),
            (''/Ac/L1/Frequency'', DNone),
            (''/Status/Mode'', DStr (Mode snap)),
            (''/Status/FaultCode'', DInt (Fault snap)),
            (''/Status/WarningCode'', DInt (Warn snap))]\<rparr>))"

definition bat_publish :: "pub_snapshot \<Rightarrow> service \<Rightarrow> service" where
  "bat_publish snap s =
     bump (s\<lparr>svc := set_items (svc s)
       [(''/Connected'', DInt 1),
        (''/Serial'', DStr (Serial snap)),
        (''/Dc/0/Voltage'', DFloat (Batt_V snap)),
        (''/Dc/0/Current'', DFloat (Batt_A snap)),
        (''/Dc/0/Power'', DInt (Batt_P snap)),
        (''/Soc'', DInt (SoC snap)),
        (''/Temperature'', DInt (T_Inv snap)),
        (''/Status/Mode'', DStr (Mode snap)),
        (''/Status/FaultCode'', DInt (Fault snap)),
        (''/Status/WarningCode'', DInt (Warn snap))]\<rparr>)"

text \<open>\<^verbatim>\<open>SumryPublisher\<close>: the stop flag and the two services.\<close>

record publisher =
  stop :: bool
  pv :: service
  bat :: service

text \<open>
  The body of the \<^verbatim>\<open>while\<close> of \<^verbatim>\<open>_loop\<close>; the two \<^verbatim>\<open>time.sleep\<close> calls
  change no state and are left out.
\<close>

definition loop_body :: "(int list \<Rightarrow> string) \<Rightarrow> modbus \<Rightarrow> publisher \<Rightarrow> publisher" where
  "loop_body decode b p =
     (case service_collect_snapshot decode b of
        Inl e \<Rightarrow>
          p\<lparr>pv := (pv p)\<lparr>svc := (svc (pv p))(''/Connected'' \<mapsto> DInt 0)\<rparr>,
            bat := (bat p)\<lparr>svc := (svc (bat p))(''/Connected'' \<mapsto> DInt 0)\<rparr>\<rparr>
      | Inr snap \<Rightarrow>
          p\<lparr>pv := pv_publish snap (pv p), bat := bat_publish snap (bat p)\<rparr>)"

text \<open>\<^verbatim>\<open>_loop\<close>, over the list of what the serial link does at each round.\<close>

fun publisher_loop :: "(int list \<Rightarrow> string) \<Rightarrow> modbus list \<Rightarrow> publisher \<Rightarrow> publisher" where
  "publisher_loop decode [] p = p"
| "publisher_loop decode (b # bs) p =
     (if stop p then p else publisher_loop decode bs (loop_body decode b p))"

definition service_mandatory :: "nat list" where
  "service_mandatory =
     [201, 202, 203, 204, 205, 206, 207, 208, 209, 210, 211, 212, 213, 214, 215, 216, 217,
      229, 219, 220, 223, 224, 226, 227, 100, 101, 108, 109]"

section \<open>Concrete inputs\<close>

text \<open>
  A configuration with the default poll interval of two seconds, and three things the
  serial link can do during a poll. Off grid: working mode 3, no mains voltage, and 100 in
  every other register. On mains: working mode 2, 230.0 V at the input, and 1000 in every
  other register. Dead: every read times out.
\<close>

definition example_cfg :: config where
  "example_cfg = \<lparr>POLL_SEC = 2, time_driver_started = 0\<rparr>"

definition no_block :: "nat \<Rightarrow> nat \<Rightarrow> int list option" where
  "no_block a n = None"

definition offgrid_reg :: "nat \<Rightarrow> int option" where
  "offgrid_reg a = (if a = 201 then Some 3 else if a = 202 then Some 0 else Some 100)"

definition offgrid_bus :: modbus where
  "offgrid_bus = \<lparr>port_ok = True, reg = offgrid_reg, reg_block = no_block\<rparr>"

definition offgrid_tick :: tick_in where
  "offgrid_tick =
     \<lparr>bus = offgrid_bus, now_save = 1000, write_res = Written, now_uptime = 1000\<rparr>"

definition mains_reg :: "nat \<Rightarrow> int option" where
  "mains_reg a = (if a = 201 then Some 2 else if a = 202 then Some 2300 else Some 1000)"

definition mains_bus :: modbus where
  "mains_bus = \<lparr>port_ok = True, reg = mains_reg, reg_block = no_block\<rparr>"

definition mains_tick :: tick_in where
  "mains_tick =
     \<lparr>bus = mains_bus, now_save = 1000, write_res = Written, now_uptime = 1000\<rparr>"

definition mains_sample :: sample where
  "mains_sample =
     \<lparr>wm = 2, in_v = 230, in_f = 10, in_p = 1000, in_i = 100 / 23, out_v = 100,
      out_i = 100, out_f = 10, out_p = 1000, out_s = 1000, dc_v = 100, dc_i = 100,
      dc_p = 1000, soc = Some 1000\<rparr>"

definition timeout_reg :: "nat \<Rightarrow> int option" where
  "timeout_reg a = None"

definition dead_bus :: modbus where
  "dead_bus = \<lparr>port_ok = True, reg = timeout_reg, reg_block = no_block\<rparr>"

definition dead_tick :: tick_in where
  "dead_tick =
     \<lparr>bus = dead_bus, now_save = 1000, write_res = Written, now_uptime = 1000\<rparr>"

definition example_service :: service where
  "example_service =
     \<lparr>svc = [''/Connected'' \<mapsto> DInt 1, ''/UpdateIndex'' \<mapsto> DInt 7], idx = 7\<rparr>"

text \<open>Idle: standby (working mode 1), 50 W flowing back into the grid, no load.\<close>

definition idle_reg :: "nat \<Rightarrow> int option" where
  "idle_reg a = (if a = 201 then Some 1 else if a = 204 then Some (- 50) else Some 0)"

definition idle_bus :: modbus where
  "idle_bus = \<lparr>port_ok = True, reg = idle_reg, reg_block = no_block\<rparr>"

definition idle_tick :: tick_in where
  "idle_tick =
     \<lparr>bus = idle_bus, now_save = 1000, write_res = Written, now_uptime = 1000\<rparr>"

definition idle_sample :: sample where
  "idle_sample =
     \<lparr>wm = 1, in_v = 0, in_f = 0, in_p = - 50, in_i = 0, out_v = 0, out_i = 0, out_f = 0,
      out_p = 0, out_s = 0, dc_v = 0, dc_i = 0, dc_p = 0, soc = Some 0\<rparr>"

text \<open>
  Trickle: on mains at 230.0 V with 1 W coming in and 1 W going out, and counters that
  have reached ten billion kWh.
\<close>

definition trickle_reg :: "nat \<Rightarrow> int option" where
  "trickle_reg a = (if a = 201 then Some 2 else if a = 202 then Some 2300 else Some 1)"

definition trickle_bus :: modbus where
  "trickle_bus = \<lparr>port_ok = True, reg = trickle_reg, reg_block = no_block\<rparr>"

definition trickle_tick :: tick_in where
  "trickle_tick =
     \<lparr>bus = trickle_bus, now_save = 1000, write_res = Written, now_uptime = 1000\<rparr>"

definition trickle_sample :: sample where
  "trickle_sample =
     \<lparr>wm = 2, in_v = 230, in_f = 1 / 100, in_p = 1, in_i = 1 / 230, out_v = 1 / 10,
      out_i = 1 / 10, out_f = 1 / 100, out_p = 1, out_s = 1, dc_v = 1 / 10, dc_i = 1 / 10,
      dc_p = 1, soc = Some 1\<rparr>"

definition full_globals :: globals where
  "full_globals =
     \<lparr>energy =
        \<lparr>AcIn1ToInverter_kWh = 10 ^ 13, AcIn1ToAcOut_kWh = 10 ^ 13,
         InverterToAcOut_kWh = 10 ^ 13\<rparr>,
      last_energy_save = 0, energy_file = NoFile\<rparr>"

text \<open>A decoder for the witnesses: every byte is the character with that code.\<close>

definition latin1_decode :: "int list \<Rightarrow> string" where
  "latin1_decode bs = map char_of bs"

definition example_publisher :: publisher where
  "example_publisher = \<lparr>stop = False, pv = example_service, bat = example_service\<rparr>"

text \<open>A counter state worth saving, and the globals that hold it before any save.\<close>

definition saved_energy :: counters where
  "saved_energy =
     \<lparr>AcIn1ToInverter_kWh = 3 / 2, AcIn1ToAcOut_kWh = 3 / 2, InverterToAcOut_kWh = 9 / 4\<rparr>"

definition running_globals :: globals where
  "running_globals = \<lparr>energy = saved_energy, last_energy_save = 0, energy_file = NoFile\<rparr>"

section \<open>Comparing counter states\<close>

text \<open>No counter of \<open>e'\<close> is below the same counter of \<open>e\<close>.\<close>

definition counters_le :: "counters \<Rightarrow> counters \<Rightarrow> bool" where
  "counters_le e e' \<longleftrightarrow>
     AcIn1ToInverter_kWh e \<le> AcIn1ToInverter_kWh e'
     \<and> AcIn1ToAcOut_kWh e \<le> AcIn1ToAcOut_kWh e'
     \<and> InverterToAcOut_kWh e \<le> InverterToAcOut_kWh e'"

section \<open>Mode and State tables: results\<close>

text \<open>
  C1, as stated, fails: the claim gives Mode = On (3) for working mode 2 (Mains) in every
  VE.Bus implementation, but \<^verbatim>\<open>vebus_mode_from_wm\<close> of dbus-multiplus-emulator.py
  and of celmaibun.py return ChargerOnly (1) there, as they do for Bypass (4).
\<close>

theorem vebus_mode_mains_counterexample:
  "emulator_vebus_mode_from_wm 2 \<noteq> 3 \<and> celmaibun_vebus_mode_from_wm 2 \<noteq> 3"
  by (simp add: emulator_vebus_mode_from_wm_def celmaibun_vebus_mode_from_wm_def)

text \<open>
  C1, amended: the Mode table of the claim (Charging gives ChargerOnly (1); OffGrid, Mains
  and Bypass give On (3); every other working mode gives Off (4)) is the table of
  multiplus.py. In celmaibun.py and dbus-multiplus-emulator.py only OffGrid (3) gives
  On (3); Mains, Bypass and Charging (2, 4, 5) give ChargerOnly (1); every other working
  mode gives Off (4).
\<close>

theorem vebus_mode_tables:
  "multiplus_vebus_mode_from_wm 5 = 1
   \<and> (\<forall>wm \<in> {3, 2, 4}. multiplus_vebus_mode_from_wm wm = 3)
   \<and> (\<forall>wm. wm \<notin> {2, 3, 4, 5} \<longrightarrow> multiplus_vebus_mode_from_wm wm = 4)
   \<and> celmaibun_vebus_mode_from_wm 3 = 3
   \<and> (\<forall>wm \<in> {2, 4, 5}. celmaibun_vebus_mode_from_wm wm = 1)
   \<and> (\<forall>wm. wm \<notin> {2, 3, 4, 5} \<longrightarrow> celmaibun_vebus_mode_from_wm wm = 4)
   \<and> emulator_vebus_mode_from_wm 3 = 3
   \<and> (\<forall>wm \<in> {2, 4, 5}. emulator_vebus_mode_from_wm wm = 1)
   \<and> (\<forall>wm. wm \<notin> {2, 3, 4, 5} \<longrightarrow> emulator_vebus_mode_from_wm wm = 4)"
  by (simp add: multiplus_vebus_mode_from_wm_def celmaibun_vebus_mode_from_wm_def
      emulator_vebus_mode_from_wm_def)

theorem vebus_mode_tables_witness:
  "(2::int) \<in> {3, 2, 4} \<and> multiplus_vebus_mode_from_wm 2 = 3
   \<and> (6::int) \<notin> {2, 3, 4, 5} \<and> multiplus_vebus_mode_from_wm 6 = 4
   \<and> (5::int) \<in> {2, 4, 5} \<and> celmaibun_vebus_mode_from_wm 5 = 1
   \<and> (0::int) \<notin> {2, 3, 4, 5} \<and> celmaibun_vebus_mode_from_wm 0 = 4
   \<and> (4::int) \<in> {2, 4, 5} \<and> emulator_vebus_mode_from_wm 4 = 1
   \<and> (1::int) \<notin> {2, 3, 4, 5} \<and> emulator_vebus_mode_from_wm 1 = 4"
  using vebus_mode_tables by simp

text \<open>
  C2, as stated, fails: the claim gives State = Bulk (3) for working mode 5 (Charging) in
  every VE.Bus implementation, but \<^verbatim>\<open>vebus_state_from_wm\<close> of multiplus.py
  returns Inverting (9) there, as it does for Mains (2) and Bypass (4).
\<close>

theorem vebus_state_charging_counterexample:
  "multiplus_vebus_state_from_wm 5 \<noteq> 3 \<and> multiplus_vebus_state_from_wm 2 \<noteq> 3"
  by (simp add: multiplus_vebus_state_from_wm_def)

text \<open>
  C2, amended: the State table of the claim (Charging gives Bulk (3); OffGrid gives
  Inverting (9); Mains and Bypass give Bulk (3); every other working mode gives
  LowPower (1)) is the table of celmaibun.py and of dbus-multiplus-emulator.py. In
  multiplus.py the four working modes Mains, OffGrid, Bypass and Charging (2, 3, 4, 5) all
  give Inverting (9) and every other working mode gives LowPower (1).
\<close>

theorem vebus_state_tables:
  "celmaibun_vebus_state_from_wm 5 = 3
   \<and> celmaibun_vebus_state_from_wm 3 = 9
   \<and> (\<forall>wm \<in> {2, 4}. celmaibun_vebus_state_from_wm wm = 3)
   \<and> (\<forall>wm. wm \<notin> {2, 3, 4, 5} \<longrightarrow> celmaibun_vebus_state_from_wm wm = 1)
   \<and> emulator_vebus_state_from_wm 5 = 3
   \<and> emulator_vebus_state_from_wm 3 = 9
   \<and> (\<forall>wm \<in> {2, 4}. emulator_vebus_state_from_wm wm = 3)
   \<and> (\<forall>wm. wm \<notin> {2, 3, 4, 5} \<longrightarrow> emulator_vebus_state_from_wm wm = 1)
   \<and> (\<forall>wm \<in> {2, 3, 4, 5}. multiplus_vebus_state_from_wm wm = 9)
   \<and> (\<forall>wm. wm \<notin> {2, 3, 4, 5} \<longrightarrow> multiplus_vebus_state_from_wm wm = 1)"
  by (simp add: celmaibun_vebus_state_from_wm_def emulator_vebus_state_from_wm_def
      multiplus_vebus_state_from_wm_def)

theorem vebus_state_tables_witness:
  "(4::int) \<in> {2, 4} \<and> celmaibun_vebus_state_from_wm 4 = 3
   \<and> (6::int) \<notin> {2, 3, 4, 5} \<and> celmaibun_vebus_state_from_wm 6 = 1
   \<and> (2::int) \<in> {2, 4} \<and> emulator_vebus_state_from_wm 2 = 3
   \<and> (0::int) \<notin> {2, 3, 4, 5} \<and> emulator_vebus_state_from_wm 0 = 1
   \<and> (5::int) \<in> {2, 3, 4, 5} \<and> multiplus_vebus_state_from_wm 5 = 9
   \<and> (1::int) \<notin> {2, 3, 4, 5} \<and> multiplus_vebus_state_from_wm 1 = 1"
  using vebus_state_tables by simp

text \<open>
  C7: in the inverter role (inverter.py, where /Mode is 1 for On and 4 for Off), the
  working modes OffGrid, Mains, Bypass and Charging (3, 2, 4, 5) give Mode = On and
  State = Inverting (9); Standby, PowerOn and Fault (1, 0, 6) give Mode = Off and
  State = Standby (1). Any other register value is treated as the second group.
\<close>

theorem venus_mode_state_table:
  "(\<forall>wm \<in> {3, 2, 4, 5}. venus_mode_from_wm wm = 1 \<and> venus_state_from_wm wm = 9)
   \<and> (\<forall>wm \<in> {1, 0, 6}. venus_mode_from_wm wm = 4 \<and> venus_state_from_wm wm = 1)
   \<and> (\<forall>wm. wm \<notin> {2, 3, 4, 5} \<longrightarrow> venus_mode_from_wm wm = 4 \<and> venus_state_from_wm wm = 1)"
  by (simp add: venus_mode_from_wm_def venus_state_from_wm_def)

theorem venus_mode_state_table_witness:
  "(5::int) \<in> {3, 2, 4, 5} \<and> venus_mode_from_wm 5 = 1 \<and> venus_state_from_wm 5 = 9
   \<and> (6::int) \<in> {1, 0, 6} \<and> venus_mode_from_wm 6 = 4 \<and> venus_state_from_wm 6 = 1
   \<and> (7::int) \<notin> {2, 3, 4, 5} \<and> venus_mode_from_wm 7 = 4 \<and> venus_state_from_wm 7 = 1"
  using venus_mode_state_table by simp

section \<open>Reading registers: lemmas\<close>

lemma and_then_Inr_iff:
  "and_then r f = Inr y \<longleftrightarrow> (\<exists>x. r = Inr x \<and> f x = Inr y)"
  by (cases r) (simp_all add: and_then_def)

lemma r16_Inr_iff: "r16 b a = Inr v \<longleftrightarrow> reg b a = Some v"
  by (simp add: r16_def split: option.splits)

lemma mk_instrument_Inr_iff: "mk_instrument b = Inr u \<longleftrightarrow> port_ok b"
  by (simp add: mk_instrument_def)

lemma multiplus_in_i_val:
  "multiplus_in_i p v = Inr (if v \<noteq> 0 then real_of_int p / v else 0)"
  by (simp add: multiplus_in_i_def py_truediv_def)

lemma celmaibun_in_i_val:
  "celmaibun_in_i p v = Inr (if v > 20 then real_of_int \<bar>p\<bar> / v else 0)"
  by (simp add: celmaibun_in_i_def py_truediv_def)

lemma emulator_in_i_val:
  "emulator_in_i p v = Inr (if v > 5 then real_of_int p / v else 0)"
  by (simp add: emulator_in_i_def py_truediv_def)

text \<open>
  The \<^verbatim>\<open>try\<close> block of the emulator's \<^verbatim>\<open>update\<close> gets through exactly when the
  port opens and each of the twelve mandatory registers is read.
\<close>

lemma emu_acquire_Inr_iff:
  "(\<exists>smp. emu_acquire ti = Inr smp) \<longleftrightarrow>
     port_ok (bus ti) \<and> (\<forall>a \<in> set emu_mandatory. reg (bus ti) a \<noteq> None)"
  unfolding emu_acquire_def emu_mandatory_def
  by (auto simp: and_then_Inr_iff r16_Inr_iff mk_instrument_Inr_iff emulator_in_i_val
      split del: if_split)

lemma emu_acquire_fields:
  assumes "emu_acquire ti = Inr smp"
  shows "reg (bus ti) 201 = Some (wm smp)" "reg (bus ti) 204 = Some (in_p smp)"
    "reg (bus ti) 213 = Some (out_p smp)"
    "\<exists>r. reg (bus ti) 202 = Some r \<and> in_v smp = real_of_int r * 0.1"
  using assms unfolding emu_acquire_def
  by (auto simp: and_then_Inr_iff r16_Inr_iff mk_instrument_Inr_iff emulator_in_i_val
      split del: if_split)

lemma offgrid_acquire:
  "emu_acquire offgrid_tick =
     Inr \<lparr>wm = 3, in_v = 0, in_f = 1, in_p = 100, in_i = 0, out_v = 10, out_i = 10,
          out_f = 1, out_p = 100, out_s = 100, dc_v = 10, dc_i = 10, dc_p = 100,
          soc = Some 100\<rparr>"
  by (simp add: emu_acquire_def and_then_def r16_def mk_instrument_def offgrid_tick_def
      offgrid_bus_def offgrid_reg_def emulator_in_i_def)

lemma mains_acquire: "emu_acquire mains_tick = Inr mains_sample"
  by (simp add: emu_acquire_def and_then_def r16_def mk_instrument_def mains_tick_def
      mains_bus_def mains_reg_def emulator_in_i_def py_truediv_def mains_sample_def)

lemma idle_acquire: "emu_acquire idle_tick = Inr idle_sample"
  by (simp add: emu_acquire_def and_then_def r16_def mk_instrument_def idle_tick_def
      idle_bus_def idle_reg_def emulator_in_i_def idle_sample_def)

section \<open>Energy accumulation: results\<close>

lemma save_energy_energy: "energy (snd (save_energy now w g)) = energy g"
  by (simp add: save_energy_def split: write_result.splits)

lemma emu_update_ok:
  assumes "emu_acquire ti = Inr smp"
  shows "energy (snd (snd (emu_update cfg ti (s, g)))) =
           accumulate (POLL_SEC cfg) smp (energy g)"
  using assms
  by (simp add: emu_update_def emu_update_with_def accumulate_def Let_def save_energy_energy)

lemma emu_update_fail:
  assumes "emu_acquire ti = Inl err"
  shows "emu_update cfg ti (s, g) =
           (True, s\<lparr>svc := (svc s)(''/Connected'' \<mapsto> DInt 0)\<rparr>, g)"
  using assms by (simp add: emu_update_def emu_update_with_def)

lemma emu_update_again: "fst (emu_update cfg ti st) = True"
  by (cases st) (simp add: emu_update_def emu_update_with_def Let_def split: sum.splits)

lemma accumulate_fields:
  "AcIn1ToInverter_kWh (accumulate dt smp e) = AcIn1ToInverter_kWh e +
     (if mains_present smp \<and> in_p smp > 0
      then real_of_int (in_p smp) / 1000 * (dt / 3600) else 0)"
  "AcIn1ToAcOut_kWh (accumulate dt smp e) = AcIn1ToAcOut_kWh e +
     (if mains_present smp \<and> in_p smp > 0
      then real_of_int (in_p smp) / 1000 * (dt / 3600) else 0)"
  "InverterToAcOut_kWh (accumulate dt smp e) = InverterToAcOut_kWh e +
     (if out_p smp > 0 then real_of_int (out_p smp) / 1000 * (dt / 3600) else 0)"
  by (simp_all add: accumulate_def accumulate_with_def exact_arith_def Let_def)

text \<open>
  C3, as stated, fails: the claim lets the grid counters grow whenever \<open>in_p > 0\<close>, with no
  other precondition. With the inverter off grid (working mode 3) and no voltage at the
  AC input, a tick that reads \<open>in_p = 100\<close> gets through its acquisition and leaves
  \<^verbatim>\<open>AcIn1ToInverter_kWh\<close> and \<^verbatim>\<open>AcIn1ToAcOut_kWh\<close> at zero.
\<close>

theorem grid_energy_counterexample:
  "map_sum id in_p (emu_acquire offgrid_tick) = Inr 100
   \<and> AcIn1ToInverter_kWh (energy (snd (snd
        (emu_update example_cfg offgrid_tick (example_service, initial_globals NoFile))))) = 0
   \<and> AcIn1ToAcOut_kWh (energy (snd (snd
        (emu_update example_cfg offgrid_tick (example_service, initial_globals NoFile))))) = 0"
  by (simp add: offgrid_acquire emu_update_ok accumulate_fields mains_present_def
      initial_globals_def initial_energy_def)

lemma emu_update_with_ok:
  assumes "emu_acquire ti = Inr smp"
  shows "energy (snd (snd (emu_update_with ar cfg ti (s, g)))) =
           accumulate_with ar (POLL_SEC cfg) smp (energy g)"
  using assms by (simp add: emu_update_with_def Let_def save_energy_energy)

lemma accumulate_with_fields:
  "AcIn1ToInverter_kWh (accumulate_with ar dt smp e) =
     (if mains_present smp \<and> in_p smp > 0
      then fl_add ar (AcIn1ToInverter_kWh e)
             (fl_mul ar (fl_div ar (real_of_int (in_p smp)) 1000) (fl_div ar dt 3600))
      else AcIn1ToInverter_kWh e)"
  "AcIn1ToAcOut_kWh (accumulate_with ar dt smp e) =
     (if mains_present smp \<and> in_p smp > 0
      then fl_add ar (AcIn1ToAcOut_kWh e)
             (fl_mul ar (fl_div ar (real_of_int (in_p smp)) 1000) (fl_div ar dt 3600))
      else AcIn1ToAcOut_kWh e)"
  "InverterToAcOut_kWh (accumulate_with ar dt smp e) =
     (if out_p smp > 0
      then fl_add ar (InverterToAcOut_kWh e)
             (fl_mul ar (fl_div ar (real_of_int (out_p smp)) 1000) (fl_div ar dt 3600))
      else InverterToAcOut_kWh e)"
  by (simp_all add: accumulate_with_def Let_def)

lemma emu_acquire_in_v:
  assumes "emu_acquire ti = Inr smp"
  shows "\<exists>r. reg (bus ti) 202 = Some r \<and> (in_v smp > 150 \<longleftrightarrow> r > 1500)"
proof -
  obtain r where r: "reg (bus ti) 202 = Some r" "in_v smp = real_of_int r * 0.1"
    using emu_acquire_fields(4) [OF assms] by blast
  have "in_v smp > 150 \<longleftrightarrow> r > 1500"
    by (simp add: r(2))
  with r(1) show ?thesis by blast
qed

subsection \<open>Rounding to a double\<close>

lemma floor_log2_eq:
  assumes "2 powi k \<le> x" "x < 2 powi (k + 1)"
  shows "\<lfloor>log 2 x\<rfloor> = k"
proof -
  have pos: "0 < x"
    using assms(1) by (smt (verit) zero_less_power_int)
  have p: "(2::real) powr real_of_int n = 2 powi n" for n
    by (simp add: powr_real_of_int')
  have "2 powr real_of_int k \<le> x"
    using assms(1) by (simp only: p)
  moreover have "x < 2 powr real_of_int (k + 1)"
    using assms(2) by (simp only: p)
  then have "x < 2 powr (real_of_int k + 1)"
    by (simp add: add.commute)
  ultimately show ?thesis
    using pos by (simp add: floor_log_eq_powr_iff)
qed

lemma bitlen_eq:
  assumes "0 \<le> j" "2 powi j \<le> real_of_int n" "real_of_int n < 2 powi (j + 1)"
  shows "bitlen n = j + 1"
proof -
  have "0 < real_of_int n"
    using assms(2) by (smt (verit) zero_less_power_int)
  then have "0 < n" by simp
  moreover have "\<lfloor>log 2 (real_of_int n)\<rfloor> = j"
    by (rule floor_log2_eq [OF assms(2,3)])
  ultimately show ?thesis
    by (simp add: bitlen_alt_def)
qed

lemma binade_eq:
  assumes "2 powi k \<le> \<bar>x\<bar>" "\<bar>x\<bar> < 2 powi (k + 1)"
  shows "binade x = k"
proof (cases "0 \<le> k")
  case True
  then have i: "(2::real) powi k = real_of_int (2 ^ nat k)"
    by (simp add: power_int_def)
  have one: "1 \<le> \<bar>x\<bar>"
    using assms(1) True by (simp add: i) (smt (verit) one_le_power)
  have lo: "2 powi k \<le> real_of_int \<lfloor>\<bar>x\<bar>\<rfloor>"
    using assms(1) unfolding i by (simp add: le_floor_iff)
  have hi: "real_of_int \<lfloor>\<bar>x\<bar>\<rfloor> < 2 powi (k + 1)"
    using assms(2) by linarith
  have "bitlen \<lfloor>\<bar>x\<bar>\<rfloor> = k + 1"
    by (rule bitlen_eq [OF True lo hi])
  with one show ?thesis
    by (simp add: binade_def)
next
  case False
  define j where "j = - k - 1"
  have j: "0 \<le> j" "k = - j - 1" "k + 1 = - j"
    using False by (simp_all add: j_def)
  have pj: "(2::real) powi j = real_of_int (2 ^ nat j)"
    "(2::real) powi (j + 1) = real_of_int (2 ^ nat (j + 1))"
    using j(1) by (simp_all add: power_int_def)
  have xpos: "0 < \<bar>x\<bar>"
    using assms(1) by (smt (verit) zero_less_power_int)
  have lt1: "\<bar>x\<bar> < 1"
  proof -
    have "(2::real) powi (- j) \<le> 1"
      using j(1) by (simp add: power_int_def inverse_eq_divide power_le_one)
    with assms(2) show ?thesis by (simp add: j(3))
  qed
  have y_hi: "1 / \<bar>x\<bar> \<le> 2 powi (j + 1)"
  proof -
    have "k = - (j + 1)"
      by (simp add: j(2))
    then have "(2::real) powi k = 1 / 2 powi (j + 1)"
      by (simp only: power_int_minus inverse_eq_divide)
    with assms(1) have "1 / 2 powi (j + 1) \<le> \<bar>x\<bar>" by simp
    then show ?thesis
      using xpos by (simp add: field_simps)
  qed
  have y_lo: "2 powi j < 1 / \<bar>x\<bar>"
  proof -
    have "(2::real) powi (k + 1) = 1 / 2 powi j"
      by (simp only: j(3) power_int_minus inverse_eq_divide)
    with assms(2) have "\<bar>x\<bar> < 1 / 2 powi j" by simp
    then show ?thesis
      using xpos by (simp add: field_simps)
  qed
  have c_hi: "\<lceil>1 / \<bar>x\<bar>\<rceil> \<le> 2 ^ nat (j + 1)"
    using y_hi unfolding pj by (simp add: ceiling_le_iff)
  have c_lo: "2 ^ nat j < \<lceil>1 / \<bar>x\<bar>\<rceil>"
    using y_lo unfolding pj by (simp add: less_ceiling_iff)
  have lo: "2 powi j \<le> real_of_int (\<lceil>1 / \<bar>x\<bar>\<rceil> - 1)"
    unfolding pj using c_lo by linarith
  have hi: "real_of_int (\<lceil>1 / \<bar>x\<bar>\<rceil> - 1) < 2 powi (j + 1)"
    unfolding pj using c_hi by linarith
  have "bitlen (\<lceil>1 / \<bar>x\<bar>\<rceil> - 1) = j + 1"
    by (rule bitlen_eq [OF j(1) lo hi])
  with lt1 show ?thesis
    by (simp add: binade_def j(2))
qed

text \<open>In the normal range a number in the binade of \<open>2 ^ k\<close> is rounded to 53 bits.\<close>

lemma round_double_binade:
  assumes "2 powi k \<le> \<bar>x\<bar>" "\<bar>x\<bar> < 2 powi (k + 1)" "- 1022 \<le> k"
  shows "round_double x =
           real_of_int (round_half_even (x / 2 powi (k - 52))) * 2 powi (k - 52)"
proof -
  have "x \<noteq> 0"
    using assms(1) by (smt (verit) zero_less_power_int)
  moreover have "binade x = k"
    by (rule binade_eq [OF assms(1,2)])
  moreover have "max (k - 52) (- 1074) = k - 52"
    using assms(3) by simp
  ultimately show ?thesis
    by (simp add: round_double_def Let_def)
qed

text \<open>
  The values of an ordinary tick, 1000 W for two seconds on counters at zero:
  \<^verbatim>\<open>1000 / 1000.0\<close> is 1.0, \<^verbatim>\<open>2.0 / 3600.0\<close> is the double next to 1/1800
  (printed by Python as 0.0005555555555555556), and neither the product nor the sum with
  0.0 rounds again.
\<close>

lemma round_double_one: "round_double 1 = 1"
  using round_double_binade [of 0 1]
  by (simp add: round_half_even_def power_int_minus)

lemma round_double_poll: "round_double (2 / 3600) = 5124095576030431 / 2 ^ 63"
  using round_double_binade [of "- 11" "2 / 3600"]
  by (simp add: round_half_even_def power_int_minus Let_def)

lemma round_double_poll_again:
  "round_double (5124095576030431 / 2 ^ 63) = 5124095576030431 / 2 ^ 63"
  using round_double_binade [of "- 11" "5124095576030431 / 2 ^ 63"]
  by (simp add: round_half_even_def power_int_minus Let_def)

lemma ordinary_delta:
  "fl_mul double_arith (fl_div double_arith 1000 1000) (fl_div double_arith 2 3600) =
     5124095576030431 / 2 ^ 63"
  "fl_add double_arith 0 (5124095576030431 / 2 ^ 63) = 5124095576030431 / 2 ^ 63"
proof -
  have 1: "fl_div double_arith 1000 1000 = 1"
    by (simp add: double_arith_def round_double_one)
  have 2: "fl_div double_arith 2 3600 = 5124095576030431 / 2 ^ 63"
    using round_double_poll by (simp add: double_arith_def)
  have 3: "fl_mul double_arith 1 (5124095576030431 / 2 ^ 63) = 5124095576030431 / 2 ^ 63"
    using round_double_poll_again by (simp add: double_arith_def)
  show "fl_mul double_arith (fl_div double_arith 1000 1000) (fl_div double_arith 2 3600) =
     5124095576030431 / 2 ^ 63"
    by (simp only: 1 2 3)
  show "fl_add double_arith 0 (5124095576030431 / 2 ^ 63) = 5124095576030431 / 2 ^ 63"
    using round_double_poll_again by (simp add: double_arith_def)
qed

text \<open>
  The values of a tick with 1 W for two seconds on counters at \<open>10 ^ 13\<close>: the increment
  is about \<open>5.6 * 10 ^ - 7\<close>, less than half the distance \<open>2 ^ - 9\<close> between the doubles
  around \<open>10 ^ 13\<close>, so the sum rounds back to \<open>10 ^ 13\<close>.
\<close>

lemma round_double_milli: "round_double (1 / 1000) = 4611686018427388 / 2 ^ 62"
  using round_double_binade [of "- 10" "1 / 1000"]
  by (simp add: round_half_even_def power_int_minus Let_def)

lemma round_double_trickle:
  "round_double ((4611686018427388 / 2 ^ 62) * (5124095576030431 / 2 ^ 63)) =
     5247073869855161 / 2 ^ 73"
  using round_double_binade
    [of "- 21" "(4611686018427388 / 2 ^ 62) * (5124095576030431 / 2 ^ 63)"]
  by (simp add: round_half_even_def power_int_minus Let_def)

lemma round_double_absorbed:
  "round_double (10 ^ 13 + 5247073869855161 / 2 ^ 73) = 10 ^ 13"
  using round_double_binade [of 43 "10 ^ 13 + 5247073869855161 / 2 ^ 73"]
  by (simp add: round_half_even_def power_int_minus Let_def)

lemma trickle_delta:
  "fl_mul double_arith (fl_div double_arith 1 1000) (fl_div double_arith 2 3600) =
     5247073869855161 / 2 ^ 73"
  "fl_add double_arith (10 ^ 13) (5247073869855161 / 2 ^ 73) = 10 ^ 13"
proof -
  have 1: "fl_div double_arith 1 1000 = 4611686018427388 / 2 ^ 62"
    using round_double_milli by (simp add: double_arith_def)
  have 2: "fl_div double_arith 2 3600 = 5124095576030431 / 2 ^ 63"
    using round_double_poll by (simp add: double_arith_def)
  have 3: "fl_mul double_arith (4611686018427388 / 2 ^ 62) (5124095576030431 / 2 ^ 63) =
      5247073869855161 / 2 ^ 73"
    using round_double_trickle by (simp add: double_arith_def)
  show "fl_mul double_arith (fl_div double_arith 1 1000) (fl_div double_arith 2 3600) =
     5247073869855161 / 2 ^ 73"
    by (simp only: 1 2 3)
  show "fl_add double_arith (10 ^ 13) (5247073869855161 / 2 ^ 73) = 10 ^ 13"
    using round_double_absorbed by (simp add: double_arith_def)
qed

lemma trickle_acquire: "emu_acquire trickle_tick = Inr trickle_sample"
  by (simp add: emu_acquire_def and_then_def r16_def mk_instrument_def trickle_tick_def
      trickle_bus_def trickle_reg_def emulator_in_i_def py_truediv_def trickle_sample_def)

subsection \<open>What a tick adds\<close>

text \<open>
  C3, amended: a poll tick whose acquisition succeeds executes
  \<^verbatim>\<open>counter += (in_p / 1000.0) * (dt / 3600.0)\<close>, with \<open>dt = POLL_SEC\<close> and in float
  arithmetic, on \<^verbatim>\<open>AcIn1ToInverter_kWh\<close> and on \<^verbatim>\<open>AcIn1ToAcOut_kWh\<close> exactly when
  \<open>in_p > 0\<close> and mains is present (working mode 2, 4 or 5, or more than 150 V at the AC
  input, which is a value above 1500 in register 202), and does not touch these two
  counters otherwise; it executes \<^verbatim>\<open>counter += (out_p / 1000.0) * (dt / 3600.0)\<close> on
  \<^verbatim>\<open>InverterToAcOut_kWh\<close> exactly when \<open>out_p > 0\<close> and does not touch it otherwise.
  What is added is \<open>p / 1000 * dt / 3600\<close> kWh up to the rounding of the three float
  operations, whatever these round to: the statement holds for every arithmetic \<open>ar\<close>,
  the interpreter's included. Here \<open>wm\<close>, \<open>in_p\<close> and \<open>out_p\<close> are the values read
  from registers 201, 204 and 213.
\<close>

theorem accumulate_per_tick:
  assumes "emu_acquire ti = Inr smp"
  shows "reg (bus ti) 201 = Some (wm smp) \<and> reg (bus ti) 204 = Some (in_p smp)
     \<and> reg (bus ti) 213 = Some (out_p smp)
     \<and> (\<exists>r. reg (bus ti) 202 = Some r \<and> (in_v smp > 150 \<longleftrightarrow> r > 1500))
     \<and> AcIn1ToInverter_kWh (energy (snd (snd (emu_update_with ar cfg ti (s, g))))) =
         (if (wm smp \<in> {2, 4, 5} \<or> in_v smp > 150) \<and> in_p smp > 0
          then fl_add ar (AcIn1ToInverter_kWh (energy g))
                 (fl_mul ar (fl_div ar (real_of_int (in_p smp)) 1000)
                    (fl_div ar (POLL_SEC cfg) 3600))
          else AcIn1ToInverter_kWh (energy g))
     \<and> AcIn1ToAcOut_kWh (energy (snd (snd (emu_update_with ar cfg ti (s, g))))) =
         (if (wm smp \<in> {2, 4, 5} \<or> in_v smp > 150) \<and> in_p smp > 0
          then fl_add ar (AcIn1ToAcOut_kWh (energy g))
                 (fl_mul ar (fl_div ar (real_of_int (in_p smp)) 1000)
                    (fl_div ar (POLL_SEC cfg) 3600))
          else AcIn1ToAcOut_kWh (energy g))
     \<and> InverterToAcOut_kWh (energy (snd (snd (emu_update_with ar cfg ti (s, g))))) =
         (if out_p smp > 0
          then fl_add ar (InverterToAcOut_kWh (energy g))
                 (fl_mul ar (fl_div ar (real_of_int (out_p smp)) 1000)
                    (fl_div ar (POLL_SEC cfg) 3600))
          else InverterToAcOut_kWh (energy g))"
proof -
  have m: "mains_present smp \<longleftrightarrow> wm smp \<in> {2, 4, 5} \<or> in_v smp > 150"
    by (simp add: mains_present_def)
  show ?thesis
    using emu_acquire_fields(1-3) [OF assms] emu_acquire_in_v [OF assms]
      emu_update_with_ok [OF assms, of ar cfg s g]
    by (simp add: accumulate_with_fields m)
qed

text \<open>
  In the interpreter's arithmetic: on mains, 1000 W in and out for two seconds take the
  three counters from 0.0 to the double 0.0005555555555555556; 1 W in and out for two
  seconds leave counters at \<open>10 ^ 13\<close> where they are, although the additions are
  executed.
\<close>

theorem accumulate_per_tick_witness:
  "emu_acquire mains_tick = Inr mains_sample
   \<and> AcIn1ToInverter_kWh (energy (snd (snd
        (emu_update_with double_arith example_cfg mains_tick
           (example_service, initial_globals NoFile)))))
       = 5124095576030431 / 2 ^ 63
   \<and> AcIn1ToAcOut_kWh (energy (snd (snd
        (emu_update_with double_arith example_cfg mains_tick
           (example_service, initial_globals NoFile)))))
       = 5124095576030431 / 2 ^ 63
   \<and> InverterToAcOut_kWh (energy (snd (snd
        (emu_update_with double_arith example_cfg mains_tick
           (example_service, initial_globals NoFile)))))
       = 5124095576030431 / 2 ^ 63
   \<and> emu_acquire trickle_tick = Inr trickle_sample
   \<and> AcIn1ToInverter_kWh (energy (snd (snd
        (emu_update_with double_arith example_cfg trickle_tick
           (example_service, full_globals)))))
       = 10 ^ 13
   \<and> AcIn1ToAcOut_kWh (energy (snd (snd
        (emu_update_with double_arith example_cfg trickle_tick
           (example_service, full_globals)))))
       = 10 ^ 13
   \<and> InverterToAcOut_kWh (energy (snd (snd
        (emu_update_with double_arith example_cfg trickle_tick
           (example_service, full_globals)))))
       = 10 ^ 13"
proof -
  have g: "(wm mains_sample \<in> {2, 4, 5} \<or> in_v mains_sample > 150) \<and> in_p mains_sample > 0"
    "out_p mains_sample > 0"
    "(wm trickle_sample \<in> {2, 4, 5} \<or> in_v trickle_sample > 150) \<and> in_p trickle_sample > 0"
    "out_p trickle_sample > 0"
    by (simp_all add: mains_sample_def trickle_sample_def)
  have v: "real_of_int (in_p mains_sample) = 1000" "real_of_int (out_p mains_sample) = 1000"
    "real_of_int (in_p trickle_sample) = 1" "real_of_int (out_p trickle_sample) = 1"
    "POLL_SEC example_cfg = 2"
    "AcIn1ToInverter_kWh (energy (initial_globals NoFile)) = 0"
    "AcIn1ToAcOut_kWh (energy (initial_globals NoFile)) = 0"
    "InverterToAcOut_kWh (energy (initial_globals NoFile)) = 0"
    "AcIn1ToInverter_kWh (energy full_globals) = 10 ^ 13"
    "AcIn1ToAcOut_kWh (energy full_globals) = 10 ^ 13"
    "InverterToAcOut_kWh (energy full_globals) = 10 ^ 13"
    by (simp_all add: mains_sample_def trickle_sample_def example_cfg_def
        initial_globals_def initial_energy_def full_globals_def)
  note a = accumulate_per_tick [OF mains_acquire, of double_arith example_cfg
      example_service "initial_globals NoFile"]
  note b = accumulate_per_tick [OF trickle_acquire, of double_arith example_cfg
      example_service full_globals]
  from a have a':
    "AcIn1ToInverter_kWh (energy (snd (snd
        (emu_update_with double_arith example_cfg mains_tick
           (example_service, initial_globals NoFile))))) = 5124095576030431 / 2 ^ 63
     \<and> AcIn1ToAcOut_kWh (energy (snd (snd
        (emu_update_with double_arith example_cfg mains_tick
           (example_service, initial_globals NoFile))))) = 5124095576030431 / 2 ^ 63
     \<and> InverterToAcOut_kWh (energy (snd (snd
        (emu_update_with double_arith example_cfg mains_tick
           (example_service, initial_globals NoFile))))) = 5124095576030431 / 2 ^ 63"
    by (simp only: g v if_True simp_thms ordinary_delta)
  from b have b':
    "AcIn1ToInverter_kWh (energy (snd (snd
        (emu_update_with double_arith example_cfg trickle_tick
           (example_service, full_globals))))) = 10 ^ 13
     \<and> AcIn1ToAcOut_kWh (energy (snd (snd
        (emu_update_with double_arith example_cfg trickle_tick
           (example_service, full_globals))))) = 10 ^ 13
     \<and> InverterToAcOut_kWh (energy (snd (snd
        (emu_update_with double_arith example_cfg trickle_tick
           (example_service, full_globals))))) = 10 ^ 13"
    by (simp only: g v if_True simp_thms trickle_delta)
  from a' b' mains_acquire trickle_acquire show ?thesis
    by blast
qed

subsection \<open>No counter decreases\<close>

lemma accumulate_mono:
  assumes "0 \<le> dt"
  shows "AcIn1ToInverter_kWh e \<le> AcIn1ToInverter_kWh (accumulate dt smp e)"
    "AcIn1ToAcOut_kWh e \<le> AcIn1ToAcOut_kWh (accumulate dt smp e)"
    "InverterToAcOut_kWh e \<le> InverterToAcOut_kWh (accumulate dt smp e)"
  using assms by (simp_all add: accumulate_fields)

lemma counters_le_refl: "counters_le e e"
  by (simp add: counters_le_def)

lemma counters_le_trans: "counters_le a b \<Longrightarrow> counters_le b c \<Longrightarrow> counters_le a c"
  by (auto simp: counters_le_def)

lemma emu_update_mono:
  assumes "0 \<le> POLL_SEC cfg"
  shows "counters_le (energy (snd st)) (energy (snd (snd (emu_update cfg ti st))))"
proof (cases st)
  case (Pair s g)
  show ?thesis
  proof (cases "emu_acquire ti")
    case (Inl err)
    then show ?thesis
      by (simp add: Pair emu_update_fail counters_le_refl)
  next
    case (Inr smp)
    then show ?thesis
      using accumulate_mono [OF assms]
      by (simp add: Pair emu_update_ok counters_le_def)
  qed
qed

lemma emu_run_step:
  "emu_run cfg (ti # tis) st = emu_run cfg tis (snd (emu_update cfg ti st))"
  using emu_update_again [of cfg ti st]
  by (cases "emu_update cfg ti st") simp

lemma emu_run_append:
  "emu_run cfg (tis1 @ tis2) st = emu_run cfg tis2 (emu_run cfg tis1 st)"
proof (induction tis1 arbitrary: st)
  case Nil
  show ?case by simp
next
  case (Cons ti tis1)
  show ?case
    by (simp only: append_Cons emu_run_step Cons.IH)
qed

lemma emu_run_mono:
  assumes "0 \<le> POLL_SEC cfg"
  shows "counters_le (energy (snd st)) (energy (snd (emu_run cfg tis st)))"
proof (induction tis arbitrary: st)
  case Nil
  show ?case by (simp add: counters_le_refl)
next
  case (Cons ti tis)
  have "counters_le (energy (snd st)) (energy (snd (snd (emu_update cfg ti st))))"
    by (rule emu_update_mono [OF assms])
  moreover have "counters_le (energy (snd (snd (emu_update cfg ti st))))
      (energy (snd (emu_run cfg tis (snd (emu_update cfg ti st)))))"
    by (rule Cons.IH)
  ultimately show ?case
    by (simp only: emu_run_step) (rule counters_le_trans)
qed

text \<open>
  C4: along every run of poll ticks, from any counter state (the initial one included),
  no energy counter ever decreases: the counters after a longer run are at least those
  after any prefix of it. A tick that reads \<open>in_p \<le> 0\<close> leaves both grid counters as
  they were, and a tick that reads \<open>out_p \<le> 0\<close> leaves \<^verbatim>\<open>InverterToAcOut_kWh\<close> as
  it was. The poll interval \<^verbatim>\<open>POLL_SEC\<close>, which the tick uses as the elapsed time, is
  not negative.
\<close>

theorem counters_never_decrease:
  assumes "0 \<le> POLL_SEC cfg"
  shows "counters_le (energy (snd (emu_run cfg tis1 st)))
           (energy (snd (emu_run cfg (tis1 @ tis2) st)))
     \<and> (\<forall>smp. emu_acquire ti = Inr smp \<and> in_p smp \<le> 0 \<longrightarrow>
           AcIn1ToInverter_kWh (energy (snd (snd (emu_update cfg ti st)))) =
             AcIn1ToInverter_kWh (energy (snd st))
           \<and> AcIn1ToAcOut_kWh (energy (snd (snd (emu_update cfg ti st)))) =
             AcIn1ToAcOut_kWh (energy (snd st)))
     \<and> (\<forall>smp. emu_acquire ti = Inr smp \<and> out_p smp \<le> 0 \<longrightarrow>
           InverterToAcOut_kWh (energy (snd (snd (emu_update cfg ti st)))) =
             InverterToAcOut_kWh (energy (snd st)))"
proof (intro conjI allI impI)
  show "counters_le (energy (snd (emu_run cfg tis1 st)))
           (energy (snd (emu_run cfg (tis1 @ tis2) st)))"
    by (simp only: emu_run_append) (rule emu_run_mono [OF assms])
next
  fix smp assume a: "emu_acquire ti = Inr smp \<and> in_p smp \<le> 0"
  obtain s g where st: "st = (s, g)" by (cases st)
  from a show "AcIn1ToInverter_kWh (energy (snd (snd (emu_update cfg ti st)))) =
             AcIn1ToInverter_kWh (energy (snd st))"
    by (simp add: st emu_update_ok accumulate_fields)
  from a show "AcIn1ToAcOut_kWh (energy (snd (snd (emu_update cfg ti st)))) =
             AcIn1ToAcOut_kWh (energy (snd st))"
    by (simp add: st emu_update_ok accumulate_fields)
next
  fix smp assume a: "emu_acquire ti = Inr smp \<and> out_p smp \<le> 0"
  obtain s g where st: "st = (s, g)" by (cases st)
  from a show "InverterToAcOut_kWh (energy (snd (snd (emu_update cfg ti st)))) =
             InverterToAcOut_kWh (energy (snd st))"
    by (simp add: st emu_update_ok accumulate_fields)
qed

theorem counters_never_decrease_witness:
  "0 \<le> POLL_SEC example_cfg
   \<and> counters_le
        (energy (snd (emu_run example_cfg [mains_tick]
           (example_service, initial_globals NoFile))))
        (energy (snd (emu_run example_cfg ([mains_tick] @ [idle_tick])
           (example_service, initial_globals NoFile))))
   \<and> emu_acquire idle_tick = Inr idle_sample \<and> in_p idle_sample \<le> 0
   \<and> out_p idle_sample \<le> 0
   \<and> AcIn1ToInverter_kWh (energy (snd (snd
        (emu_update example_cfg idle_tick (example_service, initial_globals NoFile))))) =
      AcIn1ToInverter_kWh (energy (snd (example_service, initial_globals NoFile)))
   \<and> AcIn1ToAcOut_kWh (energy (snd (snd
        (emu_update example_cfg idle_tick (example_service, initial_globals NoFile))))) =
      AcIn1ToAcOut_kWh (energy (snd (example_service, initial_globals NoFile)))
   \<and> InverterToAcOut_kWh (energy (snd (snd
        (emu_update example_cfg idle_tick (example_service, initial_globals NoFile))))) =
      InverterToAcOut_kWh (energy (snd (example_service, initial_globals NoFile)))"
proof -
  have h: "0 \<le> POLL_SEC example_cfg"
    by (simp add: example_cfg_def)
  have i: "emu_acquire idle_tick = Inr idle_sample \<and> in_p idle_sample \<le> 0"
    "emu_acquire idle_tick = Inr idle_sample \<and> out_p idle_sample \<le> 0"
    by (simp_all add: idle_acquire) (simp_all add: idle_sample_def)
  note mono = counters_never_decrease [OF h, of "[mains_tick]"
      "(example_service, initial_globals NoFile)" "[idle_tick]" idle_tick]
  from mono h i show ?thesis by blast
qed

section \<open>Failed acquisition: results\<close>

lemma r32_Inr_iff:
  "r32 b a = Inr v \<longleftrightarrow>
     (\<exists>hi lo. reg b a = Some hi \<and> reg b (Suc a) = Some lo \<and> v = (push_bit 16 hi OR lo))"
  by (auto simp: r32_def and_then_Inr_iff r16_Inr_iff)

lemma read_registers_Inr_iff: "read_registers b a n = Inr ws \<longleftrightarrow> reg_block b a n = Some ws"
  by (simp add: read_registers_def split: option.splits)

lemma read_ascii_12_Inr_iff:
  "read_ascii decode b 186 12 = Inr t \<longleftrightarrow>
     (\<exists>w1 w2. reg_block b 186 6 = Some w1 \<and> reg_block b 192 6 = Some w2
        \<and> t = decode (rstrip_nul (word_bytes (w1 @ w2))))"
  by (auto simp: read_ascii_def and_then_Inr_iff read_registers_Inr_iff)

lemma inverter_collect_Inr_iff:
  "(\<exists>snap. inverter_collect_snapshot decode b = Inr snap) \<longleftrightarrow>
     port_ok b \<and> (\<forall>a \<in> set inverter_mandatory. reg b a \<noteq> None)
     \<and> (\<forall>(a, n) \<in> set serial_blocks. reg_block b a n \<noteq> None)"
  unfolding inverter_collect_snapshot_def inverter_mandatory_def serial_blocks_def
  by (auto simp: and_then_Inr_iff r16_Inr_iff mk_instrument_Inr_iff r32_Inr_iff
      read_ascii_12_Inr_iff)

lemma service_collect_Inr_iff:
  "(\<exists>snap. service_collect_snapshot decode b = Inr snap) \<longleftrightarrow>
     port_ok b \<and> (\<forall>a \<in> set service_mandatory. reg b a \<noteq> None)
     \<and> (\<forall>(a, n) \<in> set serial_blocks. reg_block b a n \<noteq> None)"
  unfolding service_collect_snapshot_def service_mandatory_def serial_blocks_def
  by (auto simp: and_then_Inr_iff r16_Inr_iff mk_instrument_Inr_iff r32_Inr_iff
      read_ascii_12_Inr_iff)

lemma not_Inr_iff_Inl: "(\<not> (\<exists>y. r = Inr y)) \<longleftrightarrow> (\<exists>e. r = Inl e)"
  by (cases r) simp_all

lemma set_items_Nil: "set_items m [] = m"
  by (simp add: set_items_def)

lemma set_items_Cons: "set_items m (kv # kvs) = set_items (m(fst kv \<mapsto> snd kv)) kvs"
  by (simp add: set_items_def)

lemma set_items_append: "set_items m (xs @ ys) = set_items (set_items m xs) ys"
  by (simp add: set_items_def)

lemma set_items_other: "k \<notin> fst ` set kvs \<Longrightarrow> set_items m kvs k = m k"
  by (induction kvs arbitrary: m) (auto simp: set_items_Nil set_items_Cons)

lemma telemetry_connected:
  "set_items m (telemetry_items smp) ''/Connected'' = Some (DInt 1)"
proof -
  obtain rest where t: "telemetry_items smp = (''/Connected'', DInt 1) # rest"
    and r: "''/Connected'' \<notin> fst ` set rest"
    by (cases "soc smp") (simp_all add: telemetry_items_def)
  show ?thesis
    by (simp add: t set_items_Cons set_items_other [OF r])
qed

lemma emu_update_connected_ok:
  assumes "emu_acquire ti = Inr smp"
  shows "svc (fst (snd (emu_update cfg ti (s, g)))) ''/Connected'' = Some (DInt 1)"
proof -
  have e: "''/Connected'' \<notin> fst ` set (energy_items e')" for e'
    by (simp add: energy_items_def)
  show ?thesis
    using assms
    by (simp add: emu_update_def emu_update_with_def Let_def set_items_Cons set_items_Nil
        set_items_other [OF e] telemetry_connected)
qed

lemma emu_update_connected_iff:
  "svc (fst (snd (emu_update cfg ti (s, g)))) ''/Connected'' = Some (DInt 1) \<longleftrightarrow>
     port_ok (bus ti) \<and> (\<forall>a \<in> set emu_mandatory. reg (bus ti) a \<noteq> None)"
proof -
  have "svc (fst (snd (emu_update cfg ti (s, g)))) ''/Connected'' = Some (DInt 1) \<longleftrightarrow>
      (\<exists>smp. emu_acquire ti = Inr smp)"
    by (cases "emu_acquire ti") (simp_all add: emu_update_fail emu_update_connected_ok)
  then show ?thesis
    by (simp only: emu_acquire_Inr_iff)
qed

lemma bump_connected: "svc (bump s) ''/Connected'' = svc s ''/Connected''"
  by (simp add: bump_def Let_def)

lemma inverter_publish_connected:
  "svc (inverter_publish snap s) ''/Connected'' = Some (DInt 1)"
  by (simp add: inverter_publish_def bump_connected set_items_Cons set_items_Nil)

lemma pv_publish_connected: "svc (pv_publish snap s) ''/Connected'' = Some (DInt 1)"
  by (simp add: pv_publish_def Let_def bump_connected set_items_Cons set_items_Nil)

lemma bat_publish_connected: "svc (bat_publish snap s) ''/Connected'' = Some (DInt 1)"
  by (simp add: bat_publish_def bump_connected set_items_Cons set_items_Nil)

lemma emu_update_fail_regs:
  assumes "\<not> port_ok (bus ti) \<or> (\<exists>a \<in> set emu_mandatory. reg (bus ti) a = None)"
  shows "emu_update cfg ti (s, g) =
           (True, s\<lparr>svc := (svc s)(''/Connected'' \<mapsto> DInt 0)\<rparr>, g)"
proof -
  from assms have "\<not> (\<exists>smp. emu_acquire ti = Inr smp)"
    by (simp only: emu_acquire_Inr_iff) blast
  then obtain err where "emu_acquire ti = Inl err"
    by (cases "emu_acquire ti") auto
  then show ?thesis by (rule emu_update_fail)
qed

lemma inverter_tick_fail_regs:
  assumes "\<not> port_ok b \<or> (\<exists>a \<in> set inverter_mandatory. reg b a = None)
     \<or> (\<exists>(a, n) \<in> set serial_blocks. reg_block b a n = None)"
  shows "inverter_tick decode b sv =
           (True, sv\<lparr>svc := (svc sv)(''/Connected'' \<mapsto> DInt 0)\<rparr>)"
proof -
  from assms have "\<not> (\<exists>snap. inverter_collect_snapshot decode b = Inr snap)"
    unfolding inverter_collect_Inr_iff by fastforce
  then obtain err where "inverter_collect_snapshot decode b = Inl err"
    by (cases "inverter_collect_snapshot decode b") auto
  then show ?thesis by (simp add: inverter_tick_def)
qed

lemma inverter_tick_connected_iff:
  "svc (snd (inverter_tick decode b sv)) ''/Connected'' = Some (DInt 1) \<longleftrightarrow>
     port_ok b \<and> (\<forall>a \<in> set inverter_mandatory. reg b a \<noteq> None)
     \<and> (\<forall>(a, n) \<in> set serial_blocks. reg_block b a n \<noteq> None)"
proof -
  have "svc (snd (inverter_tick decode b sv)) ''/Connected'' = Some (DInt 1) \<longleftrightarrow>
      (\<exists>snap. inverter_collect_snapshot decode b = Inr snap)"
    by (cases "inverter_collect_snapshot decode b")
      (simp_all add: inverter_tick_def inverter_publish_connected)
  then show ?thesis
    by (simp only: inverter_collect_Inr_iff)
qed

lemma inverter_run_step:
  "inverter_run decode (b # bs) sv = inverter_run decode bs (snd (inverter_tick decode b sv))"
  by (simp add: inverter_tick_def split: sum.splits)

lemma loop_body_fail_regs:
  assumes "\<not> port_ok b \<or> (\<exists>a \<in> set service_mandatory. reg b a = None)
     \<or> (\<exists>(a, n) \<in> set serial_blocks. reg_block b a n = None)"
  shows "loop_body decode b p =
           p\<lparr>pv := (pv p)\<lparr>svc := (svc (pv p))(''/Connected'' \<mapsto> DInt 0)\<rparr>,
             bat := (bat p)\<lparr>svc := (svc (bat p))(''/Connected'' \<mapsto> DInt 0)\<rparr>\<rparr>"
proof -
  from assms have "\<not> (\<exists>snap. service_collect_snapshot decode b = Inr snap)"
    unfolding service_collect_Inr_iff by fastforce
  then obtain err where "service_collect_snapshot decode b = Inl err"
    by (cases "service_collect_snapshot decode b") auto
  then show ?thesis by (simp add: loop_body_def)
qed

lemma loop_body_connected_iff:
  "svc (pv (loop_body decode b p)) ''/Connected'' = Some (DInt 1) \<longleftrightarrow>
     port_ok b \<and> (\<forall>a \<in> set service_mandatory. reg b a \<noteq> None)
     \<and> (\<forall>(a, n) \<in> set serial_blocks. reg_block b a n \<noteq> None)"
  "svc (bat (loop_body decode b p)) ''/Connected'' = Some (DInt 1) \<longleftrightarrow>
     port_ok b \<and> (\<forall>a \<in> set service_mandatory. reg b a \<noteq> None)
     \<and> (\<forall>(a, n) \<in> set serial_blocks. reg_block b a n \<noteq> None)"
proof -
  have "svc (pv (loop_body decode b p)) ''/Connected'' = Some (DInt 1) \<longleftrightarrow>
      (\<exists>snap. service_collect_snapshot decode b = Inr snap)"
    by (cases "service_collect_snapshot decode b")
      (simp_all add: loop_body_def pv_publish_connected)
  then show "svc (pv (loop_body decode b p)) ''/Connected'' = Some (DInt 1) \<longleftrightarrow>
     port_ok b \<and> (\<forall>a \<in> set service_mandatory. reg b a \<noteq> None)
     \<and> (\<forall>(a, n) \<in> set serial_blocks. reg_block b a n \<noteq> None)"
    by (simp only: service_collect_Inr_iff)
  have "svc (bat (loop_body decode b p)) ''/Connected'' = Some (DInt 1) \<longleftrightarrow>
      (\<exists>snap. service_collect_snapshot decode b = Inr snap)"
    by (cases "service_collect_snapshot decode b")
      (simp_all add: loop_body_def bat_publish_connected)
  then show "svc (bat (loop_body decode b p)) ''/Connected'' = Some (DInt 1) \<longleftrightarrow>
     port_ok b \<and> (\<forall>a \<in> set service_mandatory. reg b a \<noteq> None)
     \<and> (\<forall>(a, n) \<in> set serial_blocks. reg_block b a n \<noteq> None)"
    by (simp only: service_collect_Inr_iff)
qed

lemma loop_body_stop: "stop (loop_body decode b p) = stop p"
  by (simp add: loop_body_def split: sum.splits)

text \<open>
  C5: in each of the three poll cycles (\<^verbatim>\<open>update\<close> of dbus-multiplus-emulator.py,
  \<^verbatim>\<open>tick\<close> of inverter.py, the loop body of service.py), when the acquisition fails,
  that is, when the port does not open or one of the mandatory reads raises, the tick
  changes nothing but \<^verbatim>\<open>/Connected\<close>, which it sets to 0: every other published path,
  \<^verbatim>\<open>/UpdateIndex\<close> and the counter behind it, and in the emulator the energy counters,
  the time of the last save and the energy file stay as they were. After a tick
  \<^verbatim>\<open>/Connected\<close> is 1 exactly when the acquisition of that tick succeeded. The failed
  tick asks to be called again (it returns \<open>True\<close>, it leaves the stop flag alone), so
  the ticks after it run.
\<close>

theorem failed_acquisition:
  "(\<not> port_ok (bus ti) \<or> (\<exists>a \<in> set emu_mandatory. reg (bus ti) a = None) \<longrightarrow>
      emu_update cfg ti (s, g) =
        (True, s\<lparr>svc := (svc s)(''/Connected'' \<mapsto> DInt 0)\<rparr>, g))
   \<and> (svc (fst (snd (emu_update cfg ti (s, g)))) ''/Connected'' = Some (DInt 1) \<longleftrightarrow>
        port_ok (bus ti) \<and> (\<forall>a \<in> set emu_mandatory. reg (bus ti) a \<noteq> None))
   \<and> emu_run cfg (ti # tis) (s, g) = emu_run cfg tis (snd (emu_update cfg ti (s, g)))
   \<and> (\<not> port_ok b \<or> (\<exists>a \<in> set inverter_mandatory. reg b a = None)
        \<or> (\<exists>(a, n) \<in> set serial_blocks. reg_block b a n = None) \<longrightarrow>
      inverter_tick decode b sv =
        (True, sv\<lparr>svc := (svc sv)(''/Connected'' \<mapsto> DInt 0)\<rparr>))
   \<and> (svc (snd (inverter_tick decode b sv)) ''/Connected'' = Some (DInt 1) \<longleftrightarrow>
        port_ok b \<and> (\<forall>a \<in> set inverter_mandatory. reg b a \<noteq> None)
        \<and> (\<forall>(a, n) \<in> set serial_blocks. reg_block b a n \<noteq> None))
   \<and> inverter_run decode (b # bs) sv =
        inverter_run decode bs (snd (inverter_tick decode b sv))
   \<and> (\<not> port_ok b \<or> (\<exists>a \<in> set service_mandatory. reg b a = None)
        \<or> (\<exists>(a, n) \<in> set serial_blocks. reg_block b a n = None) \<longrightarrow>
      loop_body decode b p =
        p\<lparr>pv := (pv p)\<lparr>svc := (svc (pv p))(''/Connected'' \<mapsto> DInt 0)\<rparr>,
          bat := (bat p)\<lparr>svc := (svc (bat p))(''/Connected'' \<mapsto> DInt 0)\<rparr>\<rparr>)
   \<and> (svc (pv (loop_body decode b p)) ''/Connected'' = Some (DInt 1) \<longleftrightarrow>
        port_ok b \<and> (\<forall>a \<in> set service_mandatory. reg b a \<noteq> None)
        \<and> (\<forall>(a, n) \<in> set serial_blocks. reg_block b a n \<noteq> None))
   \<and> (svc (bat (loop_body decode b p)) ''/Connected'' = Some (DInt 1) \<longleftrightarrow>
        port_ok b \<and> (\<forall>a \<in> set service_mandatory. reg b a \<noteq> None)
        \<and> (\<forall>(a, n) \<in> set serial_blocks. reg_block b a n \<noteq> None))
   \<and> (\<not> stop p \<longrightarrow>
        \<not> stop (loop_body decode b p)
        \<and> publisher_loop decode (b # bs) p = publisher_loop decode bs (loop_body decode b p))"
  by (intro conjI impI emu_update_fail_regs emu_update_connected_iff emu_run_step
      inverter_tick_fail_regs inverter_tick_connected_iff inverter_run_step
      loop_body_fail_regs loop_body_connected_iff)
    (simp_all add: loop_body_stop)

theorem failed_acquisition_witness:
  "(201 \<in> set emu_mandatory \<and> reg (bus dead_tick) 201 = None)
   \<and> emu_update example_cfg dead_tick (example_service, initial_globals NoFile) =
       (True, example_service\<lparr>svc := (svc example_service)(''/Connected'' \<mapsto> DInt 0)\<rparr>,
        initial_globals NoFile)
   \<and> (201 \<in> set inverter_mandatory \<and> reg dead_bus 201 = None)
   \<and> inverter_tick latin1_decode dead_bus example_service =
       (True, example_service\<lparr>svc := (svc example_service)(''/Connected'' \<mapsto> DInt 0)\<rparr>)
   \<and> (201 \<in> set service_mandatory)
   \<and> loop_body latin1_decode dead_bus example_publisher =
       example_publisher
         \<lparr>pv := example_service\<lparr>svc := (svc example_service)(''/Connected'' \<mapsto> DInt 0)\<rparr>,
          bat := example_service\<lparr>svc := (svc example_service)(''/Connected'' \<mapsto> DInt 0)\<rparr>\<rparr>
   \<and> \<not> stop example_publisher
   \<and> publisher_loop latin1_decode [dead_bus, dead_bus] example_publisher =
       publisher_loop latin1_decode [dead_bus] (loop_body latin1_decode dead_bus example_publisher)"
proof -
  have h1: "201 \<in> set emu_mandatory \<and> reg (bus dead_tick) 201 = None"
    by (simp add: emu_mandatory_def dead_tick_def dead_bus_def timeout_reg_def)
  have h2: "201 \<in> set inverter_mandatory \<and> reg dead_bus 201 = None"
    by (simp add: inverter_mandatory_def dead_bus_def timeout_reg_def)
  have h3: "201 \<in> set service_mandatory"
    by (simp add: service_mandatory_def)
  have h4: "\<not> stop example_publisher"
    by (simp add: example_publisher_def)
  have p: "pv example_publisher = example_service" "bat example_publisher = example_service"
    by (simp_all add: example_publisher_def)
  note fa = failed_acquisition [of dead_tick example_cfg example_service
      "initial_globals NoFile" "[]" dead_bus latin1_decode example_service "[dead_bus]"
      example_publisher]
  from fa h1 have c1:
    "emu_update example_cfg dead_tick (example_service, initial_globals NoFile) =
       (True, example_service\<lparr>svc := (svc example_service)(''/Connected'' \<mapsto> DInt 0)\<rparr>,
        initial_globals NoFile)"
    by blast
  from fa h2 have c2:
    "inverter_tick latin1_decode dead_bus example_service =
       (True, example_service\<lparr>svc := (svc example_service)(''/Connected'' \<mapsto> DInt 0)\<rparr>)"
    by blast
  from fa h2 h3 have c3:
    "loop_body latin1_decode dead_bus example_publisher =
       example_publisher
         \<lparr>pv := (pv example_publisher)
                  \<lparr>svc := (svc (pv example_publisher))(''/Connected'' \<mapsto> DInt 0)\<rparr>,
          bat := (bat example_publisher)
                  \<lparr>svc := (svc (bat example_publisher))(''/Connected'' \<mapsto> DInt 0)\<rparr>\<rparr>"
    by blast
  from fa h4 have c4:
    "publisher_loop latin1_decode [dead_bus, dead_bus] example_publisher =
       publisher_loop latin1_decode [dead_bus] (loop_body latin1_decode dead_bus example_publisher)"
    by blast
  from h1 h2 h3 h4 c1 c2 c3 c4 show ?thesis
    by (simp only: p) simp
qed

section \<open>Throttled save: results\<close>

lemma save_energy_outcome:
  "fst (save_energy t w g) = Throttled \<longleftrightarrow> t - last_energy_save g < ENERGY_SAVE_SEC"
  "fst (save_energy t w g) = Saved \<longleftrightarrow>
     \<not> t - last_energy_save g < ENERGY_SAVE_SEC \<and> w = Written"
  by (simp_all add: save_energy_def split: write_result.splits)

lemma save_energy_last:
  "last_energy_save (snd (save_energy t w g)) =
     (if fst (save_energy t w g) = Saved then t else last_energy_save g)"
  by (simp add: save_energy_def split: write_result.splits)

lemma save_energy_file:
  "fst (save_energy t w g) = Saved \<Longrightarrow>
     energy_file (snd (save_energy t w g)) = Document (energy_json (energy g))"
  by (simp add: save_energy_def split: write_result.splits if_splits)

text \<open>
  C6: when \<^verbatim>\<open>_save_energy\<close> is invoked at \<open>t1\<close> and again at \<open>t2\<close>, less than
  \<^verbatim>\<open>ENERGY_SAVE_SEC\<close> later, with the time of the last save left between the two as
  the first invocation set it, at most one of the two writes the file. The interval runs
  from the last successful write: an invocation is throttled exactly when less than
  \<^verbatim>\<open>ENERGY_SAVE_SEC\<close> passed since then, only a successful write moves that time, a
  failed write leaves it, and no invocation changes the counters in memory.
\<close>

theorem save_throttle:
  assumes "t2 - t1 < ENERGY_SAVE_SEC"
    and "last_energy_save g' = last_energy_save (snd (save_energy t1 w1 g))"
  shows "\<not> (fst (save_energy t1 w1 g) = Saved \<and> fst (save_energy t2 w2 g') = Saved)
     \<and> (fst (save_energy t1 w1 g) = Throttled \<longleftrightarrow>
          t1 - last_energy_save g < ENERGY_SAVE_SEC)
     \<and> last_energy_save (snd (save_energy t1 w1 g)) =
          (if fst (save_energy t1 w1 g) = Saved then t1 else last_energy_save g)
     \<and> (\<forall>err. fst (save_energy t1 w1 g) = SaveFailed err \<longrightarrow>
          last_energy_save (snd (save_energy t1 w1 g)) = last_energy_save g)
     \<and> energy (snd (save_energy t1 w1 g)) = energy g"
proof (intro conjI allI impI)
  show "\<not> (fst (save_energy t1 w1 g) = Saved \<and> fst (save_energy t2 w2 g') = Saved)"
  proof
    assume a: "fst (save_energy t1 w1 g) = Saved \<and> fst (save_energy t2 w2 g') = Saved"
    then have "last_energy_save g' = t1"
      using assms(2) by (simp add: save_energy_last)
    moreover from a have "\<not> t2 - last_energy_save g' < ENERGY_SAVE_SEC"
      by (simp add: save_energy_outcome)
    ultimately show False
      using assms(1) by simp
  qed
next
  show "fst (save_energy t1 w1 g) = Throttled \<longleftrightarrow> t1 - last_energy_save g < ENERGY_SAVE_SEC"
    by (rule save_energy_outcome)
next
  show "last_energy_save (snd (save_energy t1 w1 g)) =
          (if fst (save_energy t1 w1 g) = Saved then t1 else last_energy_save g)"
    by (rule save_energy_last)
next
  fix err assume "fst (save_energy t1 w1 g) = SaveFailed err"
  then show "last_energy_save (snd (save_energy t1 w1 g)) = last_energy_save g"
    by (simp add: save_energy_last)
next
  show "energy (snd (save_energy t1 w1 g)) = energy g"
    by (rule save_energy_energy)
qed

theorem save_throttle_witness:
  "(1030::real) - 1000 < ENERGY_SAVE_SEC
   \<and> fst (save_energy 1000 Written running_globals) = Saved
   \<and> fst (save_energy 1030 Written (snd (save_energy 1000 Written running_globals)))
       = Throttled
   \<and> \<not> (fst (save_energy 1000 Written running_globals) = Saved
          \<and> fst (save_energy 1030 Written (snd (save_energy 1000 Written running_globals)))
              = Saved)
   \<and> energy (snd (save_energy 1000 Written running_globals)) = saved_energy"
proof -
  have h: "(1030::real) - 1000 < ENERGY_SAVE_SEC"
    by (simp add: ENERGY_SAVE_SEC_def)
  note th = save_throttle [OF h refl, of Written running_globals Written]
  have s1: "fst (save_energy 1000 Written running_globals) = Saved"
    by (simp add: save_energy_def running_globals_def ENERGY_SAVE_SEC_def)
  have s2: "fst (save_energy 1030 Written (snd (save_energy 1000 Written running_globals)))
      = Throttled"
    by (simp add: save_energy_def running_globals_def ENERGY_SAVE_SEC_def)
  have e: "energy running_globals = saved_energy"
    by (simp add: running_globals_def)
  from th h s1 s2 e show ?thesis by simp
qed

section \<open>Persistence: results\<close>

lemma load_energy_json:
  "load_keys (energy_json e) energy_keys e0 = (e, None)"
  by (simp add: energy_json_def energy_keys_def load_key_def py_contains_def py_getitem_def
      is_int_or_float_def py_float_def energy_set_def)

text \<open>
  C8: when \<^verbatim>\<open>_save_energy\<close> has written the file, \<^verbatim>\<open>_load_energy\<close> run on that
  file, whatever the counters in memory are at that moment (all zero in a fresh process),
  leaves in memory exactly the counters that were saved. The text of the file and its
  parsing are Python's \<^verbatim>\<open>json\<close> library and are not part of the model.
\<close>

theorem save_load_roundtrip:
  assumes "fst (save_energy now w g) = Saved"
    and "energy_file g' = energy_file (snd (save_energy now w g))"
  shows "energy (load_energy g') = energy g"
  using assms
  by (simp add: save_energy_file load_energy_def load_energy_try_def json_load_def
      load_energy_json)

theorem save_load_roundtrip_witness:
  "fst (save_energy 1000 Written running_globals) = Saved
   \<and> energy (load_energy (initial_globals (Document (energy_json saved_energy))))
       = saved_energy"
proof -
  have s1: "fst (save_energy 1000 Written running_globals) = Saved"
    by (simp add: save_energy_def running_globals_def ENERGY_SAVE_SEC_def)
  have f: "energy_file (initial_globals (Document (energy_json saved_energy))) =
      energy_file (snd (save_energy 1000 Written running_globals))"
    by (simp add: save_energy_def running_globals_def ENERGY_SAVE_SEC_def
        initial_globals_def)
  have e: "energy running_globals = saved_energy"
    by (simp add: running_globals_def)
  from save_load_roundtrip [OF s1 f] s1 e show ?thesis by simp
qed

lemma load_energy_unreadable:
  assumes "energy_file g = NoFile \<or> energy_file g = Garbage"
  shows "load_energy g = g" "\<exists>err. snd (load_energy_try g) = Some err"
  using assms by (auto simp: load_energy_def load_energy_try_def json_load_def)

text \<open>
  C9: on a file that is missing, or whose text is not JSON, \<^verbatim>\<open>_load_energy\<close> called
  in a fresh process returns with the globals as they were, and so does a second call:
  every counter is zero after each. The exception is raised inside the \<^verbatim>\<open>try\<close> and
  caught there, so the caller sees none.
\<close>

theorem load_missing_twice:
  assumes "f = NoFile \<or> f = Garbage"
  shows "load_energy (initial_globals f) = initial_globals f
     \<and> load_energy (load_energy (initial_globals f)) = initial_globals f
     \<and> energy (initial_globals f) =
         \<lparr>AcIn1ToInverter_kWh = 0, AcIn1ToAcOut_kWh = 0, InverterToAcOut_kWh = 0\<rparr>
     \<and> (\<exists>err. snd (load_energy_try (initial_globals f)) = Some err)"
proof -
  have f: "energy_file (initial_globals f) = NoFile \<or> energy_file (initial_globals f) = Garbage"
    using assms by (simp add: initial_globals_def)
  show ?thesis
    by (simp add: load_energy_unreadable [OF f])
      (simp add: initial_globals_def initial_energy_def)
qed

theorem load_missing_twice_witness:
  "(NoFile = NoFile \<or> NoFile = Garbage)
   \<and> load_energy (initial_globals NoFile) = initial_globals NoFile
   \<and> load_energy (load_energy (initial_globals NoFile)) = initial_globals NoFile
   \<and> energy (load_energy (load_energy (initial_globals NoFile))) =
       \<lparr>AcIn1ToInverter_kWh = 0, AcIn1ToAcOut_kWh = 0, InverterToAcOut_kWh = 0\<rparr>"
proof -
  have h: "NoFile = NoFile \<or> NoFile = Garbage" by simp
  from load_missing_twice [OF h] show ?thesis by simp
qed

section \<open>The derived AC-input current: results\<close>

lemma and_then_Inl_iff:
  "and_then r f = Inl e \<longleftrightarrow> r = Inl e \<or> (\<exists>x. r = Inr x \<and> f x = Inl e)"
  by (cases r) (simp_all add: and_then_def)

lemma emu_acquire_no_zero_division: "emu_acquire ti \<noteq> Inl ZeroDivisionError"
  unfolding emu_acquire_def
  by (auto simp: and_then_Inl_iff r16_def mk_instrument_def emulator_in_i_val
      split: option.splits if_splits)

text \<open>
  C10: for every register value and every decoded voltage, each of the three derivations
  of the AC-input current returns a value and raises nothing: the quotient
  \<open>in_p / in_v\<close> when the voltage passes the guard of its file (nonzero in multiplus.py,
  above 20 V in celmaibun.py, above 5 V in dbus-multiplus-emulator.py) and 0.0 otherwise.
  The acquisition of the emulator never fails with \<^verbatim>\<open>ZeroDivisionError\<close>.
\<close>

theorem in_i_never_divides_by_zero:
  "multiplus_in_i p v = Inr (if v \<noteq> 0 then real_of_int p / v else 0)
   \<and> celmaibun_in_i p v = Inr (if v > 20 then real_of_int \<bar>p\<bar> / v else 0)
   \<and> emulator_in_i p v = Inr (if v > 5 then real_of_int p / v else 0)
   \<and> emu_acquire ti \<noteq> Inl ZeroDivisionError"
  by (simp only: multiplus_in_i_val celmaibun_in_i_val emulator_in_i_val
      emu_acquire_no_zero_division) simp

end
